theory Spec2Isabelle
  imports Main "HOL-Library.Word" "HOL-Library.Sublist"
begin

unbundle bit_operations_syntax

section \<open>Python values and exceptions\<close>

text \<open>
  The scraper works on decoded JSON: \<^verbatim>\<open>None\<close>, booleans, integers, strings, lists and
  dictionaries. A dictionary is an association list in insertion order, read with
  \<open>map_of\<close> and written with \<open>AList.update\<close>-like insertion (an existing key keeps its
  place, a new key goes to the end), as a Python \<^verbatim>\<open>dict\<close> does. A string is the list of
  the bytes of its UTF-8 encoding, so \<^verbatim>\<open>s.encode("utf-8")\<close> is the identity. JSON numbers
  with a fraction (Python floats) are outside the model. Values are trees: two places of a
  payload never share one mutable object, as is the case for the output of a JSON decoder.
\<close>

datatype json =
    JNull
  | JBool bool
  | JInt int
  | JStr string
  | JList "json list"
  | JObj "(string \<times> json) list"

text \<open>
  Exceptions carry the text that \<^verbatim>\<open>str(e)\<close> gives. \<open>OtherError\<close> stands for every
  exception raised by an external collaborator (the HTTP client, the classifier client).
\<close>

datatype exc =
    AttributeError string
  | TypeError string
  | KeyError string
  | OtherError string

fun str_exc :: "exc \<Rightarrow> string" where
  "str_exc (AttributeError m) = m"
| "str_exc (TypeError m) = m"
| "str_exc (KeyError m) = m"
| "str_exc (OtherError m) = m"

definition quoted :: "string \<Rightarrow> string" where
  "quoted s = [CHR 0x27] @ s @ [CHR 0x27]"

fun type_name :: "json \<Rightarrow> string" where
  "type_name JNull = ''NoneType''"
| "type_name (JBool b) = ''bool''"
| "type_name (JInt i) = ''int''"
| "type_name (JStr s) = ''str''"
| "type_name (JList xs) = ''list''"
| "type_name (JObj kvs) = ''dict''"

definition get_default :: "(string \<times> json) list \<Rightarrow> string \<Rightarrow> json \<Rightarrow> json" where
  "get_default kvs k dflt = (case map_of kvs k of None \<Rightarrow> dflt | Some v \<Rightarrow> v)"

text \<open>\<^verbatim>\<open>obj.get(key, default)\<close>: only a dictionary has the method.\<close>

fun dict_get :: "json \<Rightarrow> string \<Rightarrow> json \<Rightarrow> exc + json" where
  "dict_get (JObj kvs) k dflt = Inr (get_default kvs k dflt)"
| "dict_get v k dflt =
     Inl (AttributeError (quoted (type_name v) @ '' object has no attribute '' @ quoted ''get''))"

text \<open>
  \<^verbatim>\<open>for x in v\<close>: a list gives its elements, a dictionary its keys, a string its
  characters (here: its bytes, one-character strings); anything else is not iterable.
\<close>

fun py_iter :: "json \<Rightarrow> exc + json list" where
  "py_iter (JList xs) = Inr xs"
| "py_iter (JObj kvs) = Inr (map (\<lambda>kv. JStr (fst kv)) kvs)"
| "py_iter (JStr s) = Inr (map (\<lambda>c. JStr [c]) s)"
| "py_iter v = Inl (TypeError (quoted (type_name v) @ '' object is not iterable''))"

text \<open>A loop body run over a list, left to right, stopping at the first exception.\<close>

fun for_each :: "('a \<Rightarrow> exc + 'b) \<Rightarrow> 'a list \<Rightarrow> exc + 'b list" where
  "for_each f [] = Inr []"
| "for_each f (x # xs) =
     (case f x of
        Inl e \<Rightarrow> Inl e
      | Inr y \<Rightarrow> (case for_each f xs of Inl e \<Rightarrow> Inl e | Inr ys \<Rightarrow> Inr (y # ys)))"

section \<open>Aggregator: normalisation of one page\<close>

definition company_fields :: "string list" where
  "company_fields =
     [''siren'', ''nom_complet'', ''nom_raison_sociale'', ''activite_principale'',
      ''dirigeants'', ''adresse'', ''code_postal'', ''libelle_commune'',
      ''date_creation'', ''nature_juridique'']"

text \<open>
  The dictionary display of \<^verbatim>\<open>format_results\<close>, evaluated top to bottom.
  \<^verbatim>\<open>company.get(k)\<close> has the default \<^verbatim>\<open>None\<close>;
  \<^verbatim>\<open>company.get("siege", {}).get(k, "")\<close> calls \<^verbatim>\<open>get\<close> on whatever the payload holds
  under \<^verbatim>\<open>siege\<close>.
\<close>

fun format_company :: "json \<Rightarrow> exc + json" where
  "format_company (JObj c) =
     (case dict_get (get_default c ''siege'' (JObj [])) ''adresse'' (JStr '''') of
        Inl e \<Rightarrow> Inl e
      | Inr adresse \<Rightarrow>
     (case dict_get (get_default c ''siege'' (JObj [])) ''code_postal'' (JStr '''') of
        Inl e \<Rightarrow> Inl e
      | Inr code_postal \<Rightarrow>
     (case dict_get (get_default c ''siege'' (JObj [])) ''libelle_commune'' (JStr '''') of
        Inl e \<Rightarrow> Inl e
      | Inr libelle_commune \<Rightarrow>
          Inr (JObj
            [(''siren'', get_default c ''siren'' JNull),
             (''nom_complet'', get_default c ''nom_complet'' JNull),
             (''nom_raison_sociale'', get_default c ''nom_raison_sociale'' JNull),
             (''activite_principale'', get_default c ''activite_principale'' JNull),
             (''dirigeants'', get_default c ''dirigeants'' (JList [])),
             (''adresse'', adresse),
             (''code_postal'', code_postal),
             (''libelle_commune'', libelle_commune),
             (''date_creation'', get_default c ''date_creation'' JNull),
             (''nature_juridique'', get_default c ''nature_juridique'' JNull)]))))"
| "format_company v = dict_get v ''siren'' JNull"

definition format_results :: "json \<Rightarrow> exc + json list" where
  "format_results companies =
     (case dict_get companies ''results'' (JList []) of
        Inl e \<Rightarrow> Inl e
      | Inr results \<Rightarrow>
          (case py_iter results of
             Inl e \<Rightarrow> Inl e
           | Inr raws \<Rightarrow> for_each format_company raws))"

section \<open>Aggregator: the paginated fetch\<close>

definition NATURE_JURIDIQUE :: string where
  "NATURE_JURIDIQUE = ''5499,5410,5710''"

definition PER_PAGE :: int where
  "PER_PAGE = 25"

text \<open>The query string of one request, as \<^verbatim>\<open>get_companies\<close> builds it.\<close>

record params =
  activite_principale :: string
  code_postal :: "string option"
  departement :: "string option"
  etat_administratif :: string
  nature_juridique :: string
  per_page :: int
  page :: int

text \<open>
  The registry is an external collaborator: \<open>http\<close> stands for
  \<^verbatim>\<open>requests.get(BASE_URL, params, timeout=10)\<close> followed by \<^verbatim>\<open>raise_for_status()\<close> and
  \<^verbatim>\<open>response.json()\<close>, and gives either the decoded payload or the exception raised on the
  way. \<^verbatim>\<open>get_companies\<close> turns every exception into an object with no results and an
  \<^verbatim>\<open>error\<close> text. Calls to the logger do not change any returned value and are left out
  of the aggregator.
\<close>

definition request_params ::
  "string \<Rightarrow> string \<Rightarrow> string option \<Rightarrow> string option \<Rightarrow> int \<Rightarrow> params"
where
  "request_params naf nat_jur postal dept page_num =
     \<lparr>activite_principale = naf, code_postal = postal, departement = dept,
      etat_administratif = ''A'', nature_juridique = nat_jur,
      per_page = PER_PAGE, page = page_num\<rparr>"

definition get_companies ::
  "(params \<Rightarrow> exc + json) \<Rightarrow> string \<Rightarrow> string \<Rightarrow> string option \<Rightarrow> string option \<Rightarrow> int \<Rightarrow> json"
where
  "get_companies http naf nat_jur postal dept page_num =
     (case http (request_params naf nat_jur postal dept page_num) of
        Inr payload \<Rightarrow> payload
      | Inl e \<Rightarrow> JObj [(''results'', JList []), (''error'', JStr (str_exc e))])"

definition type_entreprises :: "bool \<Rightarrow> string" where
  "type_entreprises allow_entrepreneur_individuel =
     (if allow_entrepreneur_individuel then NATURE_JURIDIQUE @ '',1000''
      else NATURE_JURIDIQUE)"

text \<open>\<^verbatim>\<open>total_pages > 1\<close>: integers compare, \<^verbatim>\<open>True\<close> and \<^verbatim>\<open>False\<close> count as 1 and 0.\<close>

fun py_gt_one :: "json \<Rightarrow> exc + bool" where
  "py_gt_one (JInt n) = Inr (n > 1)"
| "py_gt_one (JBool b) = Inr False"
| "py_gt_one v =
     Inl (TypeError (quoted ''>'' @ '' not supported between instances of ''
            @ quoted (type_name v) @ '' and '' @ quoted ''int''))"

text \<open>\<^verbatim>\<open>range(2, total_pages + 1)\<close>, reached only when \<^verbatim>\<open>total_pages\<close> is an integer.\<close>

fun further_pages :: "json \<Rightarrow> int list" where
  "further_pages (JInt n) = [2..n]"
| "further_pages v = []"

text \<open>The loop over the further pages; \<open>fetch\<close> is \<^verbatim>\<open>get_companies\<close> at a page number.\<close>

fun fetch_pages :: "(int \<Rightarrow> json) \<Rightarrow> int list \<Rightarrow> json list \<Rightarrow> exc + json list" where
  "fetch_pages fetch [] all_results = Inr all_results"
| "fetch_pages fetch (page_num # rest) all_results =
     (case format_results (fetch page_num) of
        Inl e \<Rightarrow> Inl e
      | Inr formatted \<Rightarrow> fetch_pages fetch rest (all_results @ formatted))"

definition listing_of :: "exc + json list \<Rightarrow> json" where
  "listing_of r =
     (case r of
        Inr all_results \<Rightarrow>
          JObj [(''results_count'', JInt (int (length all_results))),
                (''results'', JList all_results)]
      | Inl e \<Rightarrow> JList [JObj [(''error'', JStr (str_exc e))]])"

definition get_companies_listing ::
  "(params \<Rightarrow> exc + json) \<Rightarrow> string \<Rightarrow> string option \<Rightarrow> string option \<Rightarrow> bool \<Rightarrow> json"
where
  "get_companies_listing http naf postal dept allow_entrepreneur_individuel =
     (let fetch = get_companies http naf (type_entreprises allow_entrepreneur_individuel)
                    postal dept;
          data = fetch 1
      in listing_of
          (case dict_get data ''total_pages'' (JInt 1) of
             Inl e \<Rightarrow> Inl e
           | Inr total_pages \<Rightarrow>
          (case format_results data of
             Inl e \<Rightarrow> Inl e
           | Inr all_results \<Rightarrow>
          (case py_gt_one total_pages of
             Inl e \<Rightarrow> Inl e
           | Inr several \<Rightarrow>
               if several then fetch_pages fetch (further_pages total_pages) all_results
               else Inr all_results))))"

section \<open>Text of a value\<close>

text \<open>
  An f-string field and the CSV writer turn a value into text with \<^verbatim>\<open>str\<close>: a string is
  itself, every other value is its \<^verbatim>\<open>repr\<close>. In the \<^verbatim>\<open>repr\<close> of a string the backslash,
  the chosen quote, the control characters and the characters that are not printable are
  escaped.
\<close>

definition digit_char :: "nat \<Rightarrow> char" where
  "digit_char n = ''0123456789abcdef'' ! (n mod 16)"

fun dec_nat :: "nat \<Rightarrow> string" where
  "dec_nat n = (if n < 10 then [digit_char n] else dec_nat (n div 10) @ [digit_char (n mod 10)])"

declare dec_nat.simps [simp del]

definition int_str :: "int \<Rightarrow> string" where
  "int_str i = (if i < 0 then ''-'' @ dec_nat (nat (- i)) else dec_nat (nat i))"

text \<open>
  The \<^verbatim>\<open>repr\<close> of a string works on code points, each of which is here the run of one
  to four bytes of its UTF-8 encoding. A code point from 0x80 on is kept when
  \<^verbatim>\<open>str.isprintable\<close> accepts it and written as an escape otherwise. The ranges below are
  the code points from 0x80 on that it rejects (the categories Cc, Cf, Cs, Co, Cn, Zl, Zp
  and Zs) in the Unicode 14.0 tables of CPython 3.11.
\<close>

definition unprintable_ranges :: "(int \<times> int) list" where
  "unprintable_ranges =
     [(0x80, 0xA0), (0xAD, 0xAD), (0x378, 0x379), (0x380, 0x383), (0x38B, 0x38B),
      (0x38D, 0x38D), (0x3A2, 0x3A2), (0x530, 0x530), (0x557, 0x558), (0x58B, 0x58C),
      (0x590, 0x590), (0x5C8, 0x5CF), (0x5EB, 0x5EE), (0x5F5, 0x605), (0x61C, 0x61C),
      (0x6DD, 0x6DD), (0x70E, 0x70F), (0x74B, 0x74C), (0x7B2, 0x7BF), (0x7FB, 0x7FC),
      (0x82E, 0x82F), (0x83F, 0x83F), (0x85C, 0x85D), (0x85F, 0x85F), (0x86B, 0x86F),
      (0x88F, 0x897), (0x8E2, 0x8E2), (0x984, 0x984), (0x98D, 0x98E), (0x991, 0x992),
      (0x9A9, 0x9A9), (0x9B1, 0x9B1), (0x9B3, 0x9B5), (0x9BA, 0x9BB), (0x9C5, 0x9C6),
      (0x9C9, 0x9CA), (0x9CF, 0x9D6), (0x9D8, 0x9DB), (0x9DE, 0x9DE), (0x9E4, 0x9E5),
      (0x9FF, 0xA00), (0xA04, 0xA04), (0xA0B, 0xA0E), (0xA11, 0xA12), (0xA29, 0xA29),
      (0xA31, 0xA31), (0xA34, 0xA34), (0xA37, 0xA37), (0xA3A, 0xA3B), (0xA3D, 0xA3D),
      (0xA43, 0xA46), (0xA49, 0xA4A), (0xA4E, 0xA50), (0xA52, 0xA58), (0xA5D, 0xA5D),
      (0xA5F, 0xA65), (0xA77, 0xA80), (0xA84, 0xA84), (0xA8E, 0xA8E), (0xA92, 0xA92),
      (0xAA9, 0xAA9), (0xAB1, 0xAB1), (0xAB4, 0xAB4), (0xABA, 0xABB), (0xAC6, 0xAC6),
      (0xACA, 0xACA), (0xACE, 0xACF), (0xAD1, 0xADF), (0xAE4, 0xAE5), (0xAF2, 0xAF8),
      (0xB00, 0xB00), (0xB04, 0xB04), (0xB0D, 0xB0E), (0xB11, 0xB12), (0xB29, 0xB29),
      (0xB31, 0xB31), (0xB34, 0xB34), (0xB3A, 0xB3B), (0xB45, 0xB46), (0xB49, 0xB4A),
      (0xB4E, 0xB54), (0xB58, 0xB5B), (0xB5E, 0xB5E), (0xB64, 0xB65), (0xB78, 0xB81),
      (0xB84, 0xB84), (0xB8B, 0xB8D), (0xB91, 0xB91), (0xB96, 0xB98), (0xB9B, 0xB9B),
      (0xB9D, 0xB9D), (0xBA0, 0xBA2), (0xBA5, 0xBA7), (0xBAB, 0xBAD), (0xBBA, 0xBBD),
      (0xBC3, 0xBC5), (0xBC9, 0xBC9), (0xBCE, 0xBCF), (0xBD1, 0xBD6), (0xBD8, 0xBE5),
      (0xBFB, 0xBFF), (0xC0D, 0xC0D), (0xC11, 0xC11), (0xC29, 0xC29), (0xC3A, 0xC3B),
      (0xC45, 0xC45), (0xC49, 0xC49), (0xC4E, 0xC54), (0xC57, 0xC57), (0xC5B, 0xC5C),
      (0xC5E, 0xC5F), (0xC64, 0xC65), (0xC70, 0xC76), (0xC8D, 0xC8D), (0xC91, 0xC91),
      (0xCA9, 0xCA9), (0xCB4, 0xCB4), (0xCBA, 0xCBB), (0xCC5, 0xCC5), (0xCC9, 0xCC9),
      (0xCCE, 0xCD4), (0xCD7, 0xCDC), (0xCDF, 0xCDF), (0xCE4, 0xCE5), (0xCF0, 0xCF0),
      (0xCF3, 0xCFF), (0xD0D, 0xD0D), (0xD11, 0xD11), (0xD45, 0xD45), (0xD49, 0xD49),
      (0xD50, 0xD53), (0xD64, 0xD65), (0xD80, 0xD80), (0xD84, 0xD84), (0xD97, 0xD99),
      (0xDB2, 0xDB2), (0xDBC, 0xDBC), (0xDBE, 0xDBF), (0xDC7, 0xDC9), (0xDCB, 0xDCE),
      (0xDD5, 0xDD5), (0xDD7, 0xDD7), (0xDE0, 0xDE5), (0xDF0, 0xDF1), (0xDF5, 0xE00),
      (0xE3B, 0xE3E), (0xE5C, 0xE80), (0xE83, 0xE83), (0xE85, 0xE85), (0xE8B, 0xE8B),
      (0xEA4, 0xEA4), (0xEA6, 0xEA6), (0xEBE, 0xEBF), (0xEC5, 0xEC5), (0xEC7, 0xEC7),
      (0xECE, 0xECF), (0xEDA, 0xEDB), (0xEE0, 0xEFF), (0xF48, 0xF48), (0xF6D, 0xF70),
      (0xF98, 0xF98), (0xFBD, 0xFBD), (0xFCD, 0xFCD), (0xFDB, 0xFFF), (0x10C6, 0x10C6),
      (0x10C8, 0x10CC), (0x10CE, 0x10CF), (0x1249, 0x1249), (0x124E, 0x124F),
      (0x1257, 0x1257), (0x1259, 0x1259), (0x125E, 0x125F), (0x1289, 0x1289),
      (0x128E, 0x128F), (0x12B1, 0x12B1), (0x12B6, 0x12B7), (0x12BF, 0x12BF),
      (0x12C1, 0x12C1), (0x12C6, 0x12C7), (0x12D7, 0x12D7), (0x1311, 0x1311),
      (0x1316, 0x1317), (0x135B, 0x135C), (0x137D, 0x137F), (0x139A, 0x139F),
      (0x13F6, 0x13F7), (0x13FE, 0x13FF), (0x1680, 0x1680), (0x169D, 0x169F),
      (0x16F9, 0x16FF), (0x1716, 0x171E), (0x1737, 0x173F), (0x1754, 0x175F),
      (0x176D, 0x176D), (0x1771, 0x1771), (0x1774, 0x177F), (0x17DE, 0x17DF),
      (0x17EA, 0x17EF), (0x17FA, 0x17FF), (0x180E, 0x180E), (0x181A, 0x181F),
      (0x1879, 0x187F), (0x18AB, 0x18AF), (0x18F6, 0x18FF), (0x191F, 0x191F),
      (0x192C, 0x192F), (0x193C, 0x193F), (0x1941, 0x1943), (0x196E, 0x196F),
      (0x1975, 0x197F), (0x19AC, 0x19AF), (0x19CA, 0x19CF), (0x19DB, 0x19DD),
      (0x1A1C, 0x1A1D), (0x1A5F, 0x1A5F), (0x1A7D, 0x1A7E), (0x1A8A, 0x1A8F),
      (0x1A9A, 0x1A9F), (0x1AAE, 0x1AAF), (0x1ACF, 0x1AFF), (0x1B4D, 0x1B4F),
      (0x1B7F, 0x1B7F), (0x1BF4, 0x1BFB), (0x1C38, 0x1C3A), (0x1C4A, 0x1C4C),
      (0x1C89, 0x1C8F), (0x1CBB, 0x1CBC), (0x1CC8, 0x1CCF), (0x1CFB, 0x1CFF),
      (0x1F16, 0x1F17), (0x1F1E, 0x1F1F), (0x1F46, 0x1F47), (0x1F4E, 0x1F4F),
      (0x1F58, 0x1F58), (0x1F5A, 0x1F5A), (0x1F5C, 0x1F5C), (0x1F5E, 0x1F5E),
      (0x1F7E, 0x1F7F), (0x1FB5, 0x1FB5), (0x1FC5, 0x1FC5), (0x1FD4, 0x1FD5),
      (0x1FDC, 0x1FDC), (0x1FF0, 0x1FF1), (0x1FF5, 0x1FF5), (0x1FFF, 0x200F),
      (0x2028, 0x202F), (0x205F, 0x206F), (0x2072, 0x2073), (0x208F, 0x208F),
      (0x209D, 0x209F), (0x20C1, 0x20CF), (0x20F1, 0x20FF), (0x218C, 0x218F),
      (0x2427, 0x243F), (0x244B, 0x245F), (0x2B74, 0x2B75), (0x2B96, 0x2B96),
      (0x2CF4, 0x2CF8), (0x2D26, 0x2D26), (0x2D28, 0x2D2C), (0x2D2E, 0x2D2F),
      (0x2D68, 0x2D6E), (0x2D71, 0x2D7E), (0x2D97, 0x2D9F), (0x2DA7, 0x2DA7),
      (0x2DAF, 0x2DAF), (0x2DB7, 0x2DB7), (0x2DBF, 0x2DBF), (0x2DC7, 0x2DC7),
      (0x2DCF, 0x2DCF), (0x2DD7, 0x2DD7), (0x2DDF, 0x2DDF), (0x2E5E, 0x2E7F),
      (0x2E9A, 0x2E9A), (0x2EF4, 0x2EFF), (0x2FD6, 0x2FEF), (0x2FFC, 0x3000),
      (0x3040, 0x3040), (0x3097, 0x3098), (0x3100, 0x3104), (0x3130, 0x3130),
      (0x318F, 0x318F), (0x31E4, 0x31EF), (0x321F, 0x321F), (0xA48D, 0xA48F),
      (0xA4C7, 0xA4CF), (0xA62C, 0xA63F), (0xA6F8, 0xA6FF), (0xA7CB, 0xA7CF),
      (0xA7D2, 0xA7D2), (0xA7D4, 0xA7D4), (0xA7DA, 0xA7F1), (0xA82D, 0xA82F),
      (0xA83A, 0xA83F), (0xA878, 0xA87F), (0xA8C6, 0xA8CD), (0xA8DA, 0xA8DF),
      (0xA954, 0xA95E), (0xA97D, 0xA97F), (0xA9CE, 0xA9CE), (0xA9DA, 0xA9DD),
      (0xA9FF, 0xA9FF), (0xAA37, 0xAA3F), (0xAA4E, 0xAA4F), (0xAA5A, 0xAA5B),
      (0xAAC3, 0xAADA), (0xAAF7, 0xAB00), (0xAB07, 0xAB08), (0xAB0F, 0xAB10),
      (0xAB17, 0xAB1F), (0xAB27, 0xAB27), (0xAB2F, 0xAB2F), (0xAB6C, 0xAB6F),
      (0xABEE, 0xABEF), (0xABFA, 0xABFF), (0xD7A4, 0xD7AF), (0xD7C7, 0xD7CA),
      (0xD7FC, 0xF8FF), (0xFA6E, 0xFA6F), (0xFADA, 0xFAFF), (0xFB07, 0xFB12),
      (0xFB18, 0xFB1C), (0xFB37, 0xFB37), (0xFB3D, 0xFB3D), (0xFB3F, 0xFB3F),
      (0xFB42, 0xFB42), (0xFB45, 0xFB45), (0xFBC3, 0xFBD2), (0xFD90, 0xFD91),
      (0xFDC8, 0xFDCE), (0xFDD0, 0xFDEF), (0xFE1A, 0xFE1F), (0xFE53, 0xFE53),
      (0xFE67, 0xFE67), (0xFE6C, 0xFE6F), (0xFE75, 0xFE75), (0xFEFD, 0xFF00),
      (0xFFBF, 0xFFC1), (0xFFC8, 0xFFC9), (0xFFD0, 0xFFD1), (0xFFD8, 0xFFD9),
      (0xFFDD, 0xFFDF), (0xFFE7, 0xFFE7), (0xFFEF, 0xFFFB), (0xFFFE, 0xFFFF),
      (0x1000C, 0x1000C), (0x10027, 0x10027), (0x1003B, 0x1003B), (0x1003E, 0x1003E),
      (0x1004E, 0x1004F), (0x1005E, 0x1007F), (0x100FB, 0x100FF), (0x10103, 0x10106),
      (0x10134, 0x10136), (0x1018F, 0x1018F), (0x1019D, 0x1019F), (0x101A1, 0x101CF),
      (0x101FE, 0x1027F), (0x1029D, 0x1029F), (0x102D1, 0x102DF), (0x102FC, 0x102FF),
      (0x10324, 0x1032C), (0x1034B, 0x1034F), (0x1037B, 0x1037F), (0x1039E, 0x1039E),
      (0x103C4, 0x103C7), (0x103D6, 0x103FF), (0x1049E, 0x1049F), (0x104AA, 0x104AF),
      (0x104D4, 0x104D7), (0x104FC, 0x104FF), (0x10528, 0x1052F), (0x10564, 0x1056E),
      (0x1057B, 0x1057B), (0x1058B, 0x1058B), (0x10593, 0x10593), (0x10596, 0x10596),
      (0x105A2, 0x105A2), (0x105B2, 0x105B2), (0x105BA, 0x105BA), (0x105BD, 0x105FF),
      (0x10737, 0x1073F), (0x10756, 0x1075F), (0x10768, 0x1077F), (0x10786, 0x10786),
      (0x107B1, 0x107B1), (0x107BB, 0x107FF), (0x10806, 0x10807), (0x10809, 0x10809),
      (0x10836, 0x10836), (0x10839, 0x1083B), (0x1083D, 0x1083E), (0x10856, 0x10856),
      (0x1089F, 0x108A6), (0x108B0, 0x108DF), (0x108F3, 0x108F3), (0x108F6, 0x108FA),
      (0x1091C, 0x1091E), (0x1093A, 0x1093E), (0x10940, 0x1097F), (0x109B8, 0x109BB),
      (0x109D0, 0x109D1), (0x10A04, 0x10A04), (0x10A07, 0x10A0B), (0x10A14, 0x10A14),
      (0x10A18, 0x10A18), (0x10A36, 0x10A37), (0x10A3B, 0x10A3E), (0x10A49, 0x10A4F),
      (0x10A59, 0x10A5F), (0x10AA0, 0x10ABF), (0x10AE7, 0x10AEA), (0x10AF7, 0x10AFF),
      (0x10B36, 0x10B38), (0x10B56, 0x10B57), (0x10B73, 0x10B77), (0x10B92, 0x10B98),
      (0x10B9D, 0x10BA8), (0x10BB0, 0x10BFF), (0x10C49, 0x10C7F), (0x10CB3, 0x10CBF),
      (0x10CF3, 0x10CF9), (0x10D28, 0x10D2F), (0x10D3A, 0x10E5F), (0x10E7F, 0x10E7F),
      (0x10EAA, 0x10EAA), (0x10EAE, 0x10EAF), (0x10EB2, 0x10EFF), (0x10F28, 0x10F2F),
      (0x10F5A, 0x10F6F), (0x10F8A, 0x10FAF), (0x10FCC, 0x10FDF), (0x10FF7, 0x10FFF),
      (0x1104E, 0x11051), (0x11076, 0x1107E), (0x110BD, 0x110BD), (0x110C3, 0x110CF),
      (0x110E9, 0x110EF), (0x110FA, 0x110FF), (0x11135, 0x11135), (0x11148, 0x1114F),
      (0x11177, 0x1117F), (0x111E0, 0x111E0), (0x111F5, 0x111FF), (0x11212, 0x11212),
      (0x1123F, 0x1127F), (0x11287, 0x11287), (0x11289, 0x11289), (0x1128E, 0x1128E),
      (0x1129E, 0x1129E), (0x112AA, 0x112AF), (0x112EB, 0x112EF), (0x112FA, 0x112FF),
      (0x11304, 0x11304), (0x1130D, 0x1130E), (0x11311, 0x11312), (0x11329, 0x11329),
      (0x11331, 0x11331), (0x11334, 0x11334), (0x1133A, 0x1133A), (0x11345, 0x11346),
      (0x11349, 0x1134A), (0x1134E, 0x1134F), (0x11351, 0x11356), (0x11358, 0x1135C),
      (0x11364, 0x11365), (0x1136D, 0x1136F), (0x11375, 0x113FF), (0x1145C, 0x1145C),
      (0x11462, 0x1147F), (0x114C8, 0x114CF), (0x114DA, 0x1157F), (0x115B6, 0x115B7),
      (0x115DE, 0x115FF), (0x11645, 0x1164F), (0x1165A, 0x1165F), (0x1166D, 0x1167F),
      (0x116BA, 0x116BF), (0x116CA, 0x116FF), (0x1171B, 0x1171C), (0x1172C, 0x1172F),
      (0x11747, 0x117FF), (0x1183C, 0x1189F), (0x118F3, 0x118FE), (0x11907, 0x11908),
      (0x1190A, 0x1190B), (0x11914, 0x11914), (0x11917, 0x11917), (0x11936, 0x11936),
      (0x11939, 0x1193A), (0x11947, 0x1194F), (0x1195A, 0x1199F), (0x119A8, 0x119A9),
      (0x119D8, 0x119D9), (0x119E5, 0x119FF), (0x11A48, 0x11A4F), (0x11AA3, 0x11AAF),
      (0x11AF9, 0x11BFF), (0x11C09, 0x11C09), (0x11C37, 0x11C37), (0x11C46, 0x11C4F),
      (0x11C6D, 0x11C6F), (0x11C90, 0x11C91), (0x11CA8, 0x11CA8), (0x11CB7, 0x11CFF),
      (0x11D07, 0x11D07), (0x11D0A, 0x11D0A), (0x11D37, 0x11D39), (0x11D3B, 0x11D3B),
      (0x11D3E, 0x11D3E), (0x11D48, 0x11D4F), (0x11D5A, 0x11D5F), (0x11D66, 0x11D66),
      (0x11D69, 0x11D69), (0x11D8F, 0x11D8F), (0x11D92, 0x11D92), (0x11D99, 0x11D9F),
      (0x11DAA, 0x11EDF), (0x11EF9, 0x11FAF), (0x11FB1, 0x11FBF), (0x11FF2, 0x11FFE),
      (0x1239A, 0x123FF), (0x1246F, 0x1246F), (0x12475, 0x1247F), (0x12544, 0x12F8F),
      (0x12FF3, 0x12FFF), (0x1342F, 0x143FF), (0x14647, 0x167FF), (0x16A39, 0x16A3F),
      (0x16A5F, 0x16A5F), (0x16A6A, 0x16A6D), (0x16ABF, 0x16ABF), (0x16ACA, 0x16ACF),
      (0x16AEE, 0x16AEF), (0x16AF6, 0x16AFF), (0x16B46, 0x16B4F), (0x16B5A, 0x16B5A),
      (0x16B62, 0x16B62), (0x16B78, 0x16B7C), (0x16B90, 0x16E3F), (0x16E9B, 0x16EFF),
      (0x16F4B, 0x16F4E), (0x16F88, 0x16F8E), (0x16FA0, 0x16FDF), (0x16FE5, 0x16FEF),
      (0x16FF2, 0x16FFF), (0x187F8, 0x187FF), (0x18CD6, 0x18CFF), (0x18D09, 0x1AFEF),
      (0x1AFF4, 0x1AFF4), (0x1AFFC, 0x1AFFC), (0x1AFFF, 0x1AFFF), (0x1B123, 0x1B14F),
      (0x1B153, 0x1B163), (0x1B168, 0x1B16F), (0x1B2FC, 0x1BBFF), (0x1BC6B, 0x1BC6F),
      (0x1BC7D, 0x1BC7F), (0x1BC89, 0x1BC8F), (0x1BC9A, 0x1BC9B), (0x1BCA0, 0x1CEFF),
      (0x1CF2E, 0x1CF2F), (0x1CF47, 0x1CF4F), (0x1CFC4, 0x1CFFF), (0x1D0F6, 0x1D0FF),
      (0x1D127, 0x1D128), (0x1D173, 0x1D17A), (0x1D1EB, 0x1D1FF), (0x1D246, 0x1D2DF),
      (0x1D2F4, 0x1D2FF), (0x1D357, 0x1D35F), (0x1D379, 0x1D3FF), (0x1D455, 0x1D455),
      (0x1D49D, 0x1D49D), (0x1D4A0, 0x1D4A1), (0x1D4A3, 0x1D4A4), (0x1D4A7, 0x1D4A8),
      (0x1D4AD, 0x1D4AD), (0x1D4BA, 0x1D4BA), (0x1D4BC, 0x1D4BC), (0x1D4C4, 0x1D4C4),
      (0x1D506, 0x1D506), (0x1D50B, 0x1D50C), (0x1D515, 0x1D515), (0x1D51D, 0x1D51D),
      (0x1D53A, 0x1D53A), (0x1D53F, 0x1D53F), (0x1D545, 0x1D545), (0x1D547, 0x1D549),
      (0x1D551, 0x1D551), (0x1D6A6, 0x1D6A7), (0x1D7CC, 0x1D7CD), (0x1DA8C, 0x1DA9A),
      (0x1DAA0, 0x1DAA0), (0x1DAB0, 0x1DEFF), (0x1DF1F, 0x1DFFF), (0x1E007, 0x1E007),
      (0x1E019, 0x1E01A), (0x1E022, 0x1E022), (0x1E025, 0x1E025), (0x1E02B, 0x1E0FF),
      (0x1E12D, 0x1E12F), (0x1E13E, 0x1E13F), (0x1E14A, 0x1E14D), (0x1E150, 0x1E28F),
      (0x1E2AF, 0x1E2BF), (0x1E2FA, 0x1E2FE), (0x1E300, 0x1E7DF), (0x1E7E7, 0x1E7E7),
      (0x1E7EC, 0x1E7EC), (0x1E7EF, 0x1E7EF), (0x1E7FF, 0x1E7FF), (0x1E8C5, 0x1E8C6),
      (0x1E8D7, 0x1E8FF), (0x1E94C, 0x1E94F), (0x1E95A, 0x1E95D), (0x1E960, 0x1EC70),
      (0x1ECB5, 0x1ED00), (0x1ED3E, 0x1EDFF), (0x1EE04, 0x1EE04), (0x1EE20, 0x1EE20),
      (0x1EE23, 0x1EE23), (0x1EE25, 0x1EE26), (0x1EE28, 0x1EE28), (0x1EE33, 0x1EE33),
      (0x1EE38, 0x1EE38), (0x1EE3A, 0x1EE3A), (0x1EE3C, 0x1EE41), (0x1EE43, 0x1EE46),
      (0x1EE48, 0x1EE48), (0x1EE4A, 0x1EE4A), (0x1EE4C, 0x1EE4C), (0x1EE50, 0x1EE50),
      (0x1EE53, 0x1EE53), (0x1EE55, 0x1EE56), (0x1EE58, 0x1EE58), (0x1EE5A, 0x1EE5A),
      (0x1EE5C, 0x1EE5C), (0x1EE5E, 0x1EE5E), (0x1EE60, 0x1EE60), (0x1EE63, 0x1EE63),
      (0x1EE65, 0x1EE66), (0x1EE6B, 0x1EE6B), (0x1EE73, 0x1EE73), (0x1EE78, 0x1EE78),
      (0x1EE7D, 0x1EE7D), (0x1EE7F, 0x1EE7F), (0x1EE8A, 0x1EE8A), (0x1EE9C, 0x1EEA0),
      (0x1EEA4, 0x1EEA4), (0x1EEAA, 0x1EEAA), (0x1EEBC, 0x1EEEF), (0x1EEF2, 0x1EFFF),
      (0x1F02C, 0x1F02F), (0x1F094, 0x1F09F), (0x1F0AF, 0x1F0B0), (0x1F0C0, 0x1F0C0),
      (0x1F0D0, 0x1F0D0), (0x1F0F6, 0x1F0FF), (0x1F1AE, 0x1F1E5), (0x1F203, 0x1F20F),
      (0x1F23C, 0x1F23F), (0x1F249, 0x1F24F), (0x1F252, 0x1F25F), (0x1F266, 0x1F2FF),
      (0x1F6D8, 0x1F6DC), (0x1F6ED, 0x1F6EF), (0x1F6FD, 0x1F6FF), (0x1F774, 0x1F77F),
      (0x1F7D9, 0x1F7DF), (0x1F7EC, 0x1F7EF), (0x1F7F1, 0x1F7FF), (0x1F80C, 0x1F80F),
      (0x1F848, 0x1F84F), (0x1F85A, 0x1F85F), (0x1F888, 0x1F88F), (0x1F8AE, 0x1F8AF),
      (0x1F8B2, 0x1F8FF), (0x1FA54, 0x1FA5F), (0x1FA6E, 0x1FA6F), (0x1FA75, 0x1FA77),
      (0x1FA7D, 0x1FA7F), (0x1FA87, 0x1FA8F), (0x1FAAD, 0x1FAAF), (0x1FABB, 0x1FABF),
      (0x1FAC6, 0x1FACF), (0x1FADA, 0x1FADF), (0x1FAE8, 0x1FAEF), (0x1FAF7, 0x1FAFF),
      (0x1FB93, 0x1FB93), (0x1FBCB, 0x1FBEF), (0x1FBFA, 0x1FFFF), (0x2A6E0, 0x2A6FF),
      (0x2B739, 0x2B73F), (0x2B81E, 0x2B81F), (0x2CEA2, 0x2CEAF), (0x2EBE1, 0x2F7FF),
      (0x2FA1E, 0x2FFFF), (0x3134B, 0xE00FF), (0xE01F0, 0x10FFFF)]"

definition is_printable :: "int \<Rightarrow> bool" where
  "is_printable cp = (\<not> list_ex (\<lambda>r. fst r \<le> cp \<and> cp \<le> snd r) unprintable_ranges)"

text \<open>The number of continuation bytes that follow a lead byte.\<close>

definition continuation_count :: "char \<Rightarrow> nat" where
  "continuation_count c =
     (if (of_char c :: nat) < 0xC0 then 0
      else if (of_char c :: nat) < 0xE0 then 1
      else if (of_char c :: nat) < 0xF0 then 2
      else 3)"

text \<open>The code point that the bytes of one encoded character stand for.\<close>

fun code_point :: "string \<Rightarrow> int" where
  "code_point [] = 0"
| "code_point [b0] = of_char b0"
| "code_point [b0, b1] = (of_char b0 - 0xC0) * 64 + (of_char b1 - 0x80)"
| "code_point [b0, b1, b2] =
     ((of_char b0 - 0xE0) * 64 + (of_char b1 - 0x80)) * 64 + (of_char b2 - 0x80)"
| "code_point (b0 # b1 # b2 # b3 # bs) =
     (((of_char b0 - 0xF0) * 64 + (of_char b1 - 0x80)) * 64 + (of_char b2 - 0x80)) * 64
       + (of_char b3 - 0x80)"

fun hex_digits :: "nat \<Rightarrow> int \<Rightarrow> string" where
  "hex_digits 0 x = []"
| "hex_digits (Suc n) x = hex_digits n (x div 16) @ [digit_char (nat (x mod 16))]"

text \<open>
  One character of the \<^verbatim>\<open>repr\<close> of a string, in the order of CPython's tests: the
  backslash and the chosen quote, the tab, line feed and carriage return, the other ASCII
  control characters, the printable ASCII characters, and from 0x80 on the characters that
  are not printable, as \<^verbatim>\<open>\xNN\<close>, \<^verbatim>\<open>\uNNNN\<close> or \<^verbatim>\<open>\UNNNNNNNN\<close> by their size.
\<close>

definition escape_unit :: "char \<Rightarrow> string \<Rightarrow> string" where
  "escape_unit quote u =
     (if u = [CHR 0x5C] then [CHR 0x5C, CHR 0x5C]
      else if u = [quote] then [CHR 0x5C, quote]
      else if u = [CHR 0x09] then [CHR 0x5C, CHR ''t'']
      else if u = [CHR 0x0A] then [CHR 0x5C, CHR ''n'']
      else if u = [CHR 0x0D] then [CHR 0x5C, CHR ''r'']
      else if code_point u < 0x20 \<or> code_point u = 0x7F
        then [CHR 0x5C, CHR ''x''] @ hex_digits 2 (code_point u)
      else if code_point u < 0x7F then u
      else if is_printable (code_point u) then u
      else if code_point u \<le> 0xFF then [CHR 0x5C, CHR ''x''] @ hex_digits 2 (code_point u)
      else if code_point u \<le> 0xFFFF then [CHR 0x5C, CHR ''u''] @ hex_digits 4 (code_point u)
      else [CHR 0x5C, CHR ''U''] @ hex_digits 8 (code_point u))"

fun repr_body :: "char \<Rightarrow> string \<Rightarrow> string" where
  "repr_body quote [] = []"
| "repr_body quote (c # cs) =
     escape_unit quote (c # take (continuation_count c) cs)
       @ repr_body quote (drop (continuation_count c) cs)"

text \<open>
  The quotes are single unless the string holds a single quote and no double quote.
\<close>

definition str_repr :: "string \<Rightarrow> string" where
  "str_repr s =
     (let quote = (if CHR 0x27 \<in> set s \<and> CHR 0x22 \<notin> set s then CHR 0x22 else CHR 0x27)
      in [quote] @ repr_body quote s @ [quote])"

fun join_comma :: "string list \<Rightarrow> string" where
  "join_comma [] = []"
| "join_comma [x] = x"
| "join_comma (x # y # ys) = x @ '', '' @ join_comma (y # ys)"

fun py_repr :: "json \<Rightarrow> string" where
  "py_repr JNull = ''None''"
| "py_repr (JBool b) = (if b then ''True'' else ''False'')"
| "py_repr (JInt i) = int_str i"
| "py_repr (JStr s) = str_repr s"
| "py_repr (JList xs) = ''['' @ join_comma (map py_repr xs) @ '']''"
| "py_repr (JObj kvs) =
     ''{'' @ join_comma (map (\<lambda>kv. str_repr (fst kv) @ '': '' @ py_repr (snd kv)) kvs) @ ''}''"

fun py_str :: "json \<Rightarrow> string" where
  "py_str (JStr s) = s"
| "py_str v = py_repr v"

section \<open>The director identifier\<close>

text \<open>
  \<^verbatim>\<open>hashlib.md5(b).hexdigest()\<close> is the MD5 digest of RFC 1321 in lower-case hexadecimal:
  the message is padded with one 0x80 byte, zero bytes and its length in bits as eight
  little-endian bytes; each block of sixteen little-endian 32-bit words goes through 64
  rounds; the four state words are printed little-endian. Additions wrap at \<open>2 ^ 32\<close>.
\<close>

definition md5_K :: "32 word list" where
  "md5_K =
     [0xd76aa478, 0xe8c7b756, 0x242070db, 0xc1bdceee, 0xf57c0faf, 0x4787c62a, 0xa8304613,
      0xfd469501, 0x698098d8, 0x8b44f7af, 0xffff5bb1, 0x895cd7be, 0x6b901122, 0xfd987193,
      0xa679438e, 0x49b40821, 0xf61e2562, 0xc040b340, 0x265e5a51, 0xe9b6c7aa, 0xd62f105d,
      0x02441453, 0xd8a1e681, 0xe7d3fbc8, 0x21e1cde6, 0xc33707d6, 0xf4d50d87, 0x455a14ed,
      0xa9e3e905, 0xfcefa3f8, 0x676f02d9, 0x8d2a4c8a, 0xfffa3942, 0x8771f681, 0x6d9d6122,
      0xfde5380c, 0xa4beea44, 0x4bdecfa9, 0xf6bb4b60, 0xbebfbc70, 0x289b7ec6, 0xeaa127fa,
      0xd4ef3085, 0x04881d05, 0xd9d4d039, 0xe6db99e5, 0x1fa27cf8, 0xc4ac5665, 0xf4292244,
      0x432aff97, 0xab9423a7, 0xfc93a039, 0x655b59c3, 0x8f0ccc92, 0xffeff47d, 0x85845dd1,
      0x6fa87e4f, 0xfe2ce6e0, 0xa3014314, 0x4e0811a1, 0xf7537e82, 0xbd3af235, 0x2ad7d2bb,
      0xeb86d391]"

definition md5_s :: "nat list" where
  "md5_s =
     [7, 12, 17, 22, 7, 12, 17, 22, 7, 12, 17, 22, 7, 12, 17, 22,
      5, 9, 14, 20, 5, 9, 14, 20, 5, 9, 14, 20, 5, 9, 14, 20,
      4, 11, 16, 23, 4, 11, 16, 23, 4, 11, 16, 23, 4, 11, 16, 23,
      6, 10, 15, 21, 6, 10, 15, 21, 6, 10, 15, 21, 6, 10, 15, 21]"

fun le_bytes :: "nat \<Rightarrow> nat \<Rightarrow> nat list" where
  "le_bytes 0 x = []"
| "le_bytes (Suc n) x = x mod 256 # le_bytes n (x div 256)"

definition md5_padding :: "nat list \<Rightarrow> nat list" where
  "md5_padding bs =
     bs @ [128] @ replicate ((119 - length bs mod 64) mod 64) 0 @ le_bytes 8 (8 * length bs)"

fun le_words :: "nat list \<Rightarrow> 32 word list" where
  "le_words (b0 # b1 # b2 # b3 # bs) =
     (of_nat b0 + 256 * of_nat b1 + 65536 * of_nat b2 + 16777216 * of_nat b3) # le_words bs"
| "le_words bs = []"

fun blocks :: "32 word list \<Rightarrow> 32 word list list" where
  "blocks ws = (if ws = [] then [] else take 16 ws # blocks (drop 16 ws))"

declare blocks.simps [simp del]

definition rotl32 :: "nat \<Rightarrow> 32 word \<Rightarrow> 32 word" where
  "rotl32 n w = push_bit n w OR drop_bit (32 - n) w"

type_synonym md5_state = "32 word \<times> 32 word \<times> 32 word \<times> 32 word"

definition md5_round :: "32 word list \<Rightarrow> nat \<Rightarrow> md5_state \<Rightarrow> md5_state" where
  "md5_round m i st =
     (case st of (a, b, c, d) \<Rightarrow>
        let f = (if i < 16 then (b AND c) OR (NOT b AND d)
                 else if i < 32 then (d AND b) OR (NOT d AND c)
                 else if i < 48 then b XOR c XOR d
                 else c XOR (b OR NOT d));
            g = (if i < 16 then i
                 else if i < 32 then (5 * i + 1) mod 16
                 else if i < 48 then (3 * i + 5) mod 16
                 else (7 * i) mod 16)
        in (d, b + rotl32 (md5_s ! i) (f + a + md5_K ! i + m ! g), b, c))"

definition md5_block :: "md5_state \<Rightarrow> 32 word list \<Rightarrow> md5_state" where
  "md5_block st m =
     (case st of (a0, b0, c0, d0) \<Rightarrow>
        case fold (md5_round m) [0..<64] st of (a, b, c, d) \<Rightarrow>
          (a0 + a, b0 + b, c0 + c, d0 + d))"

definition hex_byte :: "nat \<Rightarrow> string" where
  "hex_byte b = [digit_char (b div 16), digit_char b]"

definition word_bytes :: "32 word \<Rightarrow> nat list" where
  "word_bytes w = map (\<lambda>i. unat (drop_bit (8 * i) w AND 0xff)) [0, 1, 2, 3]"

definition md5_hexdigest :: "string \<Rightarrow> string" where
  "md5_hexdigest s =
     (case foldl md5_block (0x67452301, 0xefcdab89, 0x98badcfe, 0x10325476)
             (blocks (le_words (md5_padding (map of_char s)))) of
        (a, b, c, d) \<Rightarrow> concat (map hex_byte (concat (map word_bytes [a, b, c, d]))))"

text \<open>
  \<^verbatim>\<open>unique_str = f"{dirigeant.get('nom', '')}{dirigeant.get('prenoms', '')}"\<close> and
  \<^verbatim>\<open>hashlib.md5(unique_str.encode("utf-8")).hexdigest()[:8]\<close>.
\<close>

definition unique_str :: "(string \<times> json) list \<Rightarrow> string" where
  "unique_str d =
     py_str (get_default d ''nom'' (JStr '''')) @ py_str (get_default d ''prenoms'' (JStr ''''))"

definition dirigeant_id :: "(string \<times> json) list \<Rightarrow> string" where
  "dirigeant_id d = take 8 (md5_hexdigest (unique_str d))"

section \<open>Enrichment pipeline\<close>

text \<open>
  The third role is the byte sequence that \<^verbatim>\<open>src/scraper.py\<close> holds between the quotes: its
  accented letter is stored there as the four bytes C3 83 C2 A9.
\<close>

definition FILTRE_QUALITE :: "string list" where
  "FILTRE_QUALITE =
     [''Liquidateur'',
      ''Commissaire aux comptes titulaire'',
      ''Commissaire aux comptes suppl'' @ [CHR 0xC3, CHR 0x83, CHR 0xC2, CHR 0xA9] @ ''ant'']"

text \<open>\<^verbatim>\<open>d[k] = v\<close> on a dictionary: an existing key keeps its place, a new one is appended.\<close>

fun dict_set :: "string \<Rightarrow> json \<Rightarrow> (string \<times> json) list \<Rightarrow> (string \<times> json) list" where
  "dict_set k v [] = [(k, v)]"
| "dict_set k v (kv # kvs) = (if fst kv = k then (k, v) # kvs else kv # dict_set k v kvs)"

fun py_setitem :: "json \<Rightarrow> string \<Rightarrow> json \<Rightarrow> exc + json" where
  "py_setitem (JObj kvs) k v = Inr (JObj (dict_set k v kvs))"
| "py_setitem (JList xs) k v = Inl (TypeError ''list indices must be integers or slices, not str'')"
| "py_setitem x k v =
     Inl (TypeError (quoted (type_name x) @ '' object does not support item assignment''))"

text \<open>\<^verbatim>\<open>d[k]\<close> with a string key.\<close>

fun py_getitem :: "json \<Rightarrow> string \<Rightarrow> exc + json" where
  "py_getitem (JObj kvs) k =
     (case map_of kvs k of None \<Rightarrow> Inl (KeyError (quoted k)) | Some v \<Rightarrow> Inr v)"
| "py_getitem (JList xs) k = Inl (TypeError ''list indices must be integers or slices, not str'')"
| "py_getitem (JStr s) k =
     Inl (TypeError (''string indices must be integers, not '' @ quoted ''str''))"
| "py_getitem x k = Inl (TypeError (quoted (type_name x) @ '' object is not subscriptable''))"

text \<open>
  \<^verbatim>\<open>k in x\<close> for a string \<open>k\<close>: a key of a dictionary, an element of a list, a substring
  of a string.
\<close>

fun py_contains :: "json \<Rightarrow> string \<Rightarrow> exc + bool" where
  "py_contains (JObj kvs) k = Inr (k \<in> set (map fst kvs))"
| "py_contains (JList xs) k = Inr (JStr k \<in> set xs)"
| "py_contains (JStr s) k = Inr (sublist k s)"
| "py_contains x k =
     Inl (TypeError (''argument of type '' @ quoted (type_name x) @ '' is not iterable''))"

text \<open>
  The condition of the list comprehension; \<^verbatim>\<open>and\<close> evaluates its right side only when
  the left side holds.
\<close>

definition keeps :: "json \<Rightarrow> exc + bool" where
  "keeps d =
     (case dict_get d ''type_dirigeant'' JNull of
        Inl e \<Rightarrow> Inl e
      | Inr t \<Rightarrow>
          if t = JStr ''personne physique''
          then (case dict_get d ''qualite'' JNull of
                  Inl e \<Rightarrow> Inl e
                | Inr q \<Rightarrow> Inr (q \<notin> set (map JStr FILTRE_QUALITE)))
          else Inr False)"

fun filter_exc :: "('a \<Rightarrow> exc + bool) \<Rightarrow> 'a list \<Rightarrow> exc + 'a list" where
  "filter_exc p [] = Inr []"
| "filter_exc p (x # xs) =
     (case p x of
        Inl e \<Rightarrow> Inl e
      | Inr b \<Rightarrow>
          (case filter_exc p xs of
             Inl e \<Rightarrow> Inl e
           | Inr ys \<Rightarrow> Inr (if b then x # ys else ys)))"

text \<open>
  The body of \<^verbatim>\<open>for dirigeant in dirigeants\<close>: the director with its identifier set, and
  the entry appended to \<^verbatim>\<open>all_dirigeants\<close>. Every element of \<^verbatim>\<open>dirigeants\<close> has answered
  \<^verbatim>\<open>get\<close> in the comprehension, so it is a dictionary.
\<close>

fun assign_id :: "json \<Rightarrow> exc + json \<times> json" where
  "assign_id (JObj d) =
     (let d' = dict_set ''id'' (JStr (dirigeant_id d)) d
      in Inr (JObj d',
              JObj [(''id'', get_default d' ''id'' JNull),
                    (''nom'', get_default d' ''nom'' (JStr '''')),
                    (''prenoms'', get_default d' ''prenoms'' (JStr ''''))]))"
| "assign_id v =
     Inl (AttributeError (quoted (type_name v) @ '' object has no attribute '' @ quoted ''get''))"

text \<open>
  One turn of \<^verbatim>\<open>for company in companies\<close>: the entry appended to \<^verbatim>\<open>cleaned\<close> and the
  entries appended to \<^verbatim>\<open>all_dirigeants\<close>.
\<close>

definition clean_company :: "json \<Rightarrow> exc + json \<times> json list" where
  "clean_company company =
     (case py_contains company ''error'' of
        Inl e \<Rightarrow> Inl e
      | Inr has_error \<Rightarrow>
          if has_error then Inr (company, [])
          else
     (case dict_get company ''dirigeants'' (JList []) of
        Inl e \<Rightarrow> Inl e
      | Inr listed \<Rightarrow>
     (case py_iter listed of
        Inl e \<Rightarrow> Inl e
      | Inr ds \<Rightarrow>
     (case filter_exc keeps ds of
        Inl e \<Rightarrow> Inl e
      | Inr dirigeants \<Rightarrow>
     (case for_each assign_id dirigeants of
        Inl e \<Rightarrow> Inl e
      | Inr pairs \<Rightarrow>
     (case py_setitem company ''dirigeants'' (JList (map fst pairs)) of
        Inl e \<Rightarrow> Inl e
      | Inr company' \<Rightarrow> Inr (company', map snd pairs)))))))"

fun cleanup_pass :: "json list \<Rightarrow> exc + json list \<times> json list" where
  "cleanup_pass [] = Inr ([], [])"
| "cleanup_pass (company # companies) =
     (case clean_company company of
        Inl e \<Rightarrow> Inl e
      | Inr (company', entries) \<Rightarrow>
          (case cleanup_pass companies of
             Inl e \<Rightarrow> Inl e
           | Inr (cleaned, all_dirigeants) \<Rightarrow>
               Inr (company' # cleaned, entries @ all_dirigeants)))"

text \<open>
  The classifier is an external collaborator: \<open>classifier\<close> stands for
  \<^verbatim>\<open>identify_turkish_names\<close>, the call to the language-model client with the serialised
  list and the parse of its reply into \<^verbatim>\<open>OrigineTurc\<close> objects. It gives the parsed list or
  the exception raised on the way.
\<close>

record OrigineTurc =
  ot_id :: string
  origine_turque :: bool

text \<open>
  \<^verbatim>\<open>next((item for item in turkish_origins if item.id == dirigeant["id"]), None)\<close>: the
  subscript is evaluated once per item, so it raises only when there is an item to test.
\<close>

fun find_match :: "OrigineTurc list \<Rightarrow> json \<Rightarrow> exc + OrigineTurc option" where
  "find_match [] dirigeant = Inr None"
| "find_match (item # items) dirigeant =
     (case py_getitem dirigeant ''id'' of
        Inl e \<Rightarrow> Inl e
      | Inr v \<Rightarrow> if JStr (ot_id item) = v then Inr (Some item) else find_match items dirigeant)"

definition set_origin :: "OrigineTurc list \<Rightarrow> json \<Rightarrow> exc + json" where
  "set_origin turkish_origins dirigeant =
     (case find_match turkish_origins dirigeant of
        Inl e \<Rightarrow> Inl e
      | Inr None \<Rightarrow> py_setitem dirigeant ''origine_turque'' (JBool False)
      | Inr (Some item) \<Rightarrow> py_setitem dirigeant ''origine_turque'' (JBool (origine_turque item)))"

text \<open>
  The two merge loops write into the directors in place, so what they have written stays
  when a later step raises: each loop gives the list as it stands and the exception, if any.
\<close>

fun merge_dirigeants :: "OrigineTurc list \<Rightarrow> json list \<Rightarrow> json list \<times> exc option" where
  "merge_dirigeants turkish_origins [] = ([], None)"
| "merge_dirigeants turkish_origins (d # ds) =
     (case set_origin turkish_origins d of
        Inl e \<Rightarrow> (d # ds, Some e)
      | Inr d' \<Rightarrow>
          (case merge_dirigeants turkish_origins ds of (ds', raised) \<Rightarrow> (d' # ds', raised)))"

text \<open>
  \<^verbatim>\<open>for dirigeant in company.get("dirigeants", [])\<close>: a stored list is walked and its
  directors updated; without the key the default list is empty; the keys of a stored
  dictionary and the characters of a stored string are new strings, which the body cannot
  update.
\<close>

fun merge_company :: "OrigineTurc list \<Rightarrow> json \<Rightarrow> json \<times> exc option" where
  "merge_company turkish_origins (JObj kvs) =
     (case map_of kvs ''dirigeants'' of
        None \<Rightarrow> (JObj kvs, None)
      | Some (JList ds) \<Rightarrow>
          (case merge_dirigeants turkish_origins ds of
             (ds', raised) \<Rightarrow> (JObj (dict_set ''dirigeants'' (JList ds') kvs), raised))
      | Some v \<Rightarrow>
          (case py_iter v of
             Inl e \<Rightarrow> (JObj kvs, Some e)
           | Inr xs \<Rightarrow> (JObj kvs, snd (merge_dirigeants turkish_origins xs))))"
| "merge_company turkish_origins v =
     (v, Some (AttributeError
                (quoted (type_name v) @ '' object has no attribute '' @ quoted ''get'')))"

fun merge_all :: "OrigineTurc list \<Rightarrow> json list \<Rightarrow> json list \<times> exc option" where
  "merge_all turkish_origins [] = ([], None)"
| "merge_all turkish_origins (company # companies) =
     (case merge_company turkish_origins company of
        (company', Some e) \<Rightarrow> (company' # companies, Some e)
      | (company', None) \<Rightarrow>
          (case merge_all turkish_origins companies of
             (companies', raised) \<Rightarrow> (company' # companies', raised)))"

datatype log_line = INFO string | ERROR string

text \<open>
  \<^verbatim>\<open>results_cleanup_and_enrich\<close> gives the returned list and the lines it logs itself. The
  first loop is outside the \<^verbatim>\<open>try\<close>, so its exceptions leave the function.
\<close>

definition results_cleanup_and_enrich ::
  "(json list \<Rightarrow> exc + OrigineTurc list) \<Rightarrow> json list \<Rightarrow> bool
     \<Rightarrow> exc + json list \<times> log_line list"
where
  "results_cleanup_and_enrich classifier companies check_turkish_names =
     (case cleanup_pass companies of
        Inl e \<Rightarrow> Inl e
      | Inr (cleaned, all_dirigeants) \<Rightarrow>
          if check_turkish_names then
            if all_dirigeants = []
            then Inr (cleaned, [INFO ''No dirigeants found to check for Turkish names.''])
            else
              (case classifier all_dirigeants of
                 Inl e \<Rightarrow>
                   Inr (cleaned, [ERROR (''Error identifying Turkish names: '' @ str_exc e)])
               | Inr turkish_origins \<Rightarrow>
                   (case merge_all turkish_origins cleaned of
                      (cleaned', None) \<Rightarrow> Inr (cleaned', [])
                    | (cleaned', Some e) \<Rightarrow>
                        Inr (cleaned',
                             [ERROR (''Error identifying Turkish names: '' @ str_exc e)])))
          else Inr (cleaned, []))"

section \<open>CSV exporter\<close>

definition headers :: "string list" where
  "headers =
     [''dirigeant_nom'', ''dirigeant_prenoms'', ''dirigeant_date_de_naissance'',
      ''dirigeant_qualite'', ''dirigeant_origine_turque'', ''dirigeant_nationalite'',
      ''siren'', ''nom_complet'', ''activite_principale'', ''adresse'', ''code_postal'',
      ''libelle_commune'', ''date_creation'', ''nature_juridique'']"

definition company_data :: "(string \<times> json) list \<Rightarrow> (string \<times> json) list" where
  "company_data company =
     [(''siren'', get_default company ''siren'' (JStr '''')),
      (''nom_complet'', get_default company ''nom_complet'' (JStr '''')),
      (''activite_principale'', get_default company ''activite_principale'' (JStr '''')),
      (''adresse'', get_default company ''adresse'' (JStr '''')),
      (''code_postal'', get_default company ''code_postal'' (JStr '''')),
      (''libelle_commune'', get_default company ''libelle_commune'' (JStr '''')),
      (''date_creation'', get_default company ''date_creation'' (JStr '''')),
      (''nature_juridique'', get_default company ''nature_juridique'' (JStr ''''))]"

definition dirigeant_data :: "(string \<times> json) list \<Rightarrow> (string \<times> json) list" where
  "dirigeant_data dirigeant =
     [(''dirigeant_nom'', get_default dirigeant ''nom'' (JStr '''')),
      (''dirigeant_prenoms'', get_default dirigeant ''prenoms'' (JStr '''')),
      (''dirigeant_date_de_naissance'', get_default dirigeant ''date_de_naissance'' (JStr '''')),
      (''dirigeant_qualite'', get_default dirigeant ''qualite'' (JStr '''')),
      (''dirigeant_origine_turque'', get_default dirigeant ''origine_turque'' (JBool False))]"

text \<open>
  \<^verbatim>\<open>csv.DictWriter.writerow\<close>: the cells follow \<^verbatim>\<open>fieldnames\<close>, a field the row lacks is
  the empty \<^verbatim>\<open>restval\<close>, \<^verbatim>\<open>None\<close> is written as the empty text and every other value as
  its \<^verbatim>\<open>str\<close>. A row is the list of its cell texts; the quoting of a cell in the file is
  left to the \<^verbatim>\<open>csv\<close> module. Every key of a row built here is a field name, so the
  writer's check for extra keys passes.
\<close>

fun cell_text :: "json \<Rightarrow> string" where
  "cell_text JNull = []"
| "cell_text v = py_str v"

definition writerow :: "string list \<Rightarrow> (string \<times> json) list \<Rightarrow> string list" where
  "writerow fieldnames row = map (\<lambda>k. cell_text (get_default row k (JStr ''''))) fieldnames"

text \<open>\<^verbatim>\<open>row = {**dirigeant_data, **company_data}\<close>; the two sets of keys are disjoint.\<close>

definition csv_row :: "(string \<times> json) list \<Rightarrow> (string \<times> json) list \<Rightarrow> string list" where
  "csv_row company dirigeant = writerow headers (dirigeant_data dirigeant @ company_data company)"

text \<open>
  The loops of \<^verbatim>\<open>write_csv\<close> give the rows written so far and the exception, if any:
  nothing catches it, and the file keeps what was written before. The output directory and
  the file are taken to open without error.
\<close>

fun dirigeant_rows :: "(string \<times> json) list \<Rightarrow> json list \<Rightarrow> string list list \<times> exc option" where
  "dirigeant_rows company [] = ([], None)"
| "dirigeant_rows company (JObj dirigeant # ds) =
     (case dirigeant_rows company ds of
        (rows, raised) \<Rightarrow> (csv_row company dirigeant # rows, raised))"
| "dirigeant_rows company (v # ds) =
     ([], Some (AttributeError
                 (quoted (type_name v) @ '' object has no attribute '' @ quoted ''get'')))"

fun company_rows :: "json \<Rightarrow> string list list \<times> exc option" where
  "company_rows (JObj company) =
     (case py_iter (get_default company ''dirigeants'' (JList [])) of
        Inl e \<Rightarrow> ([], Some e)
      | Inr ds \<Rightarrow> dirigeant_rows company ds)"
| "company_rows v =
     ([], Some (AttributeError
                 (quoted (type_name v) @ '' object has no attribute '' @ quoted ''get'')))"

fun data_rows :: "json list \<Rightarrow> string list list \<times> exc option" where
  "data_rows [] = ([], None)"
| "data_rows (company # companies) =
     (case company_rows company of
        (rows, Some e) \<Rightarrow> (rows, Some e)
      | (rows, None) \<Rightarrow>
          (case data_rows companies of (rows', raised) \<Rightarrow> (rows @ rows', raised)))"

definition write_csv :: "json list \<Rightarrow> string list list \<times> exc option" where
  "write_csv companies =
     (case data_rows companies of (rows, raised) \<Rightarrow> (headers # rows, raised))"

section \<open>Vocabulary of the statements\<close>

text \<open>
  The condition of the comprehension as a predicate: where \<^verbatim>\<open>keeps\<close> returns, it returns
  this.
\<close>

fun is_kept :: "json \<Rightarrow> bool" where
  "is_kept (JObj d) =
     (get_default d ''type_dirigeant'' JNull = JStr ''personne physique'' \<and>
      get_default d ''qualite'' JNull \<notin> set (map JStr FILTRE_QUALITE))"
| "is_kept v = False"

text \<open>A company that holds a list of directors all of which pass the comprehension.\<close>

fun kept_company :: "json \<Rightarrow> bool" where
  "kept_company (JObj kvs) =
     (case map_of kvs ''dirigeants'' of
        Some (JList ds) \<Rightarrow> list_all is_kept ds
      | _ \<Rightarrow> False)"
| "kept_company v = False"

text \<open>
  The two results of \<^verbatim>\<open>assign_id\<close> on a dictionary, one at a time: the director with its
  identifier set, and the entry made from a director that has its identifier.
\<close>

fun with_id :: "json \<Rightarrow> json" where
  "with_id (JObj d) = JObj (dict_set ''id'' (JStr (dirigeant_id d)) d)"
| "with_id v = v"

fun entry_of :: "json \<Rightarrow> json" where
  "entry_of (JObj d) =
     JObj [(''id'', get_default d ''id'' JNull),
           (''nom'', get_default d ''nom'' (JStr '''')),
           (''prenoms'', get_default d ''prenoms'' (JStr ''''))]"
| "entry_of v = v"

text \<open>
  The directors a company contributes rows for, and the row of one of them, for the
  statement of what \<^verbatim>\<open>write_csv\<close> writes.
\<close>

fun dirigeants_of :: "json \<Rightarrow> json list" where
  "dirigeants_of (JObj company) =
     (case py_iter (get_default company ''dirigeants'' (JList [])) of
        Inl e \<Rightarrow> []
      | Inr ds \<Rightarrow> ds)"
| "dirigeants_of v = []"


section \<open>Example inputs\<close>

text \<open>A registry of three pages with one, two and one company, told apart by their sirens.\<close>

definition example_company :: "string \<Rightarrow> json" where
  "example_company s = JObj [(''siren'', JStr s)]"

definition example_page :: "int \<Rightarrow> json" where
  "example_page p =
     JObj [(''total_pages'', JInt 3),
           (''results'', JList
              (if p = 1 then [example_company ''111'']
               else if p = 2 then [example_company ''221'', example_company ''222'']
               else [example_company ''331'']))]"

definition example_http :: "params \<Rightarrow> exc + json" where
  "example_http q = Inr (example_page (page q))"

definition example_formatted :: "string \<Rightarrow> json" where
  "example_formatted s =
     JObj [(''siren'', JStr s), (''nom_complet'', JNull), (''nom_raison_sociale'', JNull),
           (''activite_principale'', JNull), (''dirigeants'', JList []),
           (''adresse'', JStr ''''), (''code_postal'', JStr ''''),
           (''libelle_commune'', JStr ''''), (''date_creation'', JNull),
           (''nature_juridique'', JNull)]"

definition example_normalized :: "int \<Rightarrow> json list" where
  "example_normalized p =
     (if p = 1 then [example_formatted ''111'']
      else if p = 2 then [example_formatted ''221'', example_formatted ''222'']
      else [example_formatted ''331''])"

text \<open>A registry whose every request times out.\<close>

definition failing_http :: "params \<Rightarrow> exc + json" where
  "failing_http q = Inl (OtherError ''Read timed out.'')"

text \<open>A page whose only company has a siren and a street, and a page whose company is empty.\<close>

definition partial_page :: json where
  "partial_page =
     JObj [(''results'', JList
             [JObj [(''siren'', JStr ''123456789''),
                    (''siege'', JObj [(''adresse'', JStr ''1 RUE DE LA PAIX'')])]])]"

definition partial_formatted :: json where
  "partial_formatted =
     JObj [(''siren'', JStr ''123456789''), (''nom_complet'', JNull),
           (''nom_raison_sociale'', JNull), (''activite_principale'', JNull),
           (''dirigeants'', JList []), (''adresse'', JStr ''1 RUE DE LA PAIX''),
           (''code_postal'', JStr ''''), (''libelle_commune'', JStr ''''),
           (''date_creation'', JNull), (''nature_juridique'', JNull)]"

definition empty_company_page :: json where
  "empty_company_page = JObj [(''results'', JList [JObj []])]"

text \<open>A company with one director, a company without directors, an error descriptor.\<close>

definition csv_dirigeant :: "(string \<times> json) list" where
  "csv_dirigeant =
     [(''nom'', JStr ''DUPONT''), (''prenoms'', JStr ''JEAN''),
      (''date_de_naissance'', JStr ''1970-01''), (''qualite'', JStr ''Gerant''),
      (''type_dirigeant'', JStr ''personne physique''),
      (''nationalite'', JStr ''Francaise'')]"

definition csv_company :: "(string \<times> json) list" where
  "csv_company =
     [(''siren'', JStr ''123456789''), (''nom_complet'', JStr ''ACME''),
      (''nom_raison_sociale'', JStr ''ACME''), (''activite_principale'', JStr ''43.99A''),
      (''dirigeants'', JList [JObj csv_dirigeant]), (''adresse'', JStr ''1 RUE DE LA PAIX''),
      (''code_postal'', JStr ''75002''), (''libelle_commune'', JStr ''PARIS''),
      (''date_creation'', JStr ''2001-02-03''), (''nature_juridique'', JStr ''5499'')]"

definition idle_company :: "(string \<times> json) list" where
  "idle_company = [(''siren'', JStr ''987654321''), (''dirigeants'', JList [])]"

definition error_descriptor :: "(string \<times> json) list" where
  "error_descriptor = [(''error'', JStr ''Read timed out.'')]"

text \<open>
  A company with a manager, a liquidator and a legal person as directors, and a classifier
  that knows the manager.
\<close>

definition scenario_gerant :: "(string \<times> json) list" where
  "scenario_gerant =
     [(''nom'', JStr ''DUPONT''), (''prenoms'', JStr ''JEAN''), (''qualite'', JStr ''Gerant''),
      (''type_dirigeant'', JStr ''personne physique'')]"

definition scenario_liquidateur :: "(string \<times> json) list" where
  "scenario_liquidateur =
     [(''nom'', JStr ''MARTIN''), (''prenoms'', JStr ''LUC''),
      (''qualite'', JStr ''Liquidateur''), (''type_dirigeant'', JStr ''personne physique'')]"

definition scenario_holding :: "(string \<times> json) list" where
  "scenario_holding =
     [(''denomination'', JStr ''HOLDING''), (''qualite'', JStr ''President''),
      (''type_dirigeant'', JStr ''personne morale'')]"

definition scenario_company :: "(string \<times> json) list" where
  "scenario_company =
     [(''siren'', JStr ''123456789''),
      (''dirigeants'',
         JList [JObj scenario_gerant, JObj scenario_liquidateur, JObj scenario_holding])]"

definition scenario_classifier :: "json list \<Rightarrow> exc + OrigineTurc list" where
  "scenario_classifier names =
     Inr [\<lparr>ot_id = dirigeant_id scenario_gerant, origine_turque = True\<rparr>]"

definition scenario_gerant_id :: "(string \<times> json) list" where
  "scenario_gerant_id = scenario_gerant @ [(''id'', JStr (dirigeant_id scenario_gerant))]"

definition scenario_entry :: json where
  "scenario_entry =
     JObj [(''id'', JStr (dirigeant_id scenario_gerant)), (''nom'', JStr ''DUPONT''),
           (''prenoms'', JStr ''JEAN'')]"

definition scenario_cleaned :: "(string \<times> json) list" where
  "scenario_cleaned =
     [(''siren'', JStr ''123456789''), (''dirigeants'', JList [JObj scenario_gerant_id])]"

definition scenario_enriched :: "(string \<times> json) list" where
  "scenario_enriched =
     [(''siren'', JStr ''123456789''),
      (''dirigeants'', JList [JObj (scenario_gerant_id @ [(''origine_turque'', JBool True)])])]"

text \<open>A classifier whose call fails.\<close>

definition failing_classifier :: "json list \<Rightarrow> exc + OrigineTurc list" where
  "failing_classifier names = Inl (OtherError ''Connection error.'')"

text \<open>
  A company whose only director is a person with the role of alternate auditor, spelled
  with the two bytes C3 A9 of the UTF-8 encoding of its accented letter, as the registry
  sends it.
\<close>

definition auditor :: "(string \<times> json) list" where
  "auditor =
     [(''nom'', JStr ''DUPONT''), (''prenoms'', JStr ''JEAN''),
      (''qualite'', JStr (''Commissaire aux comptes suppl'' @ [CHR 0xC3, CHR 0xA9] @ ''ant'')),
      (''type_dirigeant'', JStr ''personne physique'')]"

definition auditor_company :: "(string \<times> json) list" where
  "auditor_company =
     [(''siren'', JStr ''123456789''), (''dirigeants'', JList [JObj auditor])]"


section \<open>Properties of the aggregator\<close>

lemma fetch_pages_concat:
  "\<forall>p\<in>set ps. format_results (fetch p) = Inr (r p) \<Longrightarrow>
   fetch_pages fetch ps acc = Inr (acc @ concat (map r ps))"
  by (induction ps arbitrary: acc) auto

lemma upto_from_one: "1 < n \<Longrightarrow> [1..n] = 1 # [2..n]"
  by (simp add: upto_rec1)

text \<open>
  C2. When the request for page 1 succeeds with an integer \<^verbatim>\<open>total_pages\<close> \<open>n\<close> (or
  without the field, which counts as 1), and the request for every page from 1 to \<open>n\<close>
  succeeds with a payload that \<^verbatim>\<open>format_results\<close> normalises, then
  \<^verbatim>\<open>get_companies_listing\<close> returns the normalised results of the pages concatenated in
  ascending page order, each page in its own order, and \<^verbatim>\<open>results_count\<close> is the sum of
  the numbers of results of the pages. Page 1 is always fetched, so the pages are 1 to
  \<open>max 1 n\<close>.
\<close>

theorem get_companies_listing_concatenates_pages:
  assumes p1: "http (request_params naf (type_entreprises allow) postal dept 1) = Inr data"
    and tp: "dict_get data ''total_pages'' (JInt 1) = Inr (JInt n)"
    and pages: "\<forall>p\<in>set [1..max 1 n]. \<exists>payload.
        http (request_params naf (type_entreprises allow) postal dept p) = Inr payload \<and>
        format_results payload = Inr (normalized p)"
  shows "get_companies_listing http naf postal dept allow =
     JObj [(''results_count'',
              JInt (int (sum_list (map (\<lambda>p. length (normalized p)) [1..max 1 n])))),
           (''results'', JList (concat (map normalized [1..max 1 n])))]"
proof -
  let ?fetch = "get_companies http naf (type_entreprises allow) postal dept"
  have fetch: "format_results (?fetch p) = Inr (normalized p)" if "p \<in> set [1..max 1 n]" for p
  proof -
    from pages that obtain payload where
      "http (request_params naf (type_entreprises allow) postal dept p) = Inr payload"
      "format_results payload = Inr (normalized p)"
      by blast
    then show ?thesis by (simp add: get_companies_def)
  qed
  have d: "?fetch 1 = data"
    using p1 by (simp add: get_companies_def)
  have f1: "format_results data = Inr (normalized 1)"
    using fetch [of 1] d by simp
  have len: "int (length (concat (map normalized ps))) =
             int (sum_list (map (\<lambda>p. length (normalized p)) ps))" for ps
    by (simp add: length_concat comp_def)
  show ?thesis
  proof (cases "1 < n")
    case True
    then have u: "[1..max 1 n] = 1 # [2..n]"
      by (simp add: upto_from_one max_def)
    have "\<forall>p\<in>set [2..n]. format_results (?fetch p) = Inr (normalized p)"
      using fetch u by simp
    then have "fetch_pages ?fetch [2..n] (normalized 1) =
               Inr (normalized 1 @ concat (map normalized [2..n]))"
      by (rule fetch_pages_concat)
    then show ?thesis
      using True d tp f1 u len [of "1 # [2..n]"]
      by (simp add: get_companies_listing_def Let_def listing_of_def)
  next
    case False
    then have u: "[1..max 1 n] = [1]"
      by (simp add: max_def)
    show ?thesis
      using False d tp f1 u
      by (simp add: get_companies_listing_def Let_def listing_of_def)
  qed
qed

lemma format_example_company:
  "format_company (example_company s) = Inr (example_formatted s)"
  by (simp add: example_company_def example_formatted_def get_default_def)

lemma format_example_page:
  "format_results (example_page p) = Inr (example_normalized p)"
  by (simp add: format_results_def example_page_def example_normalized_def get_default_def
        format_example_company)

theorem get_companies_listing_three_pages:
  "get_companies_listing example_http ''43.99A'' None (Some ''75'') False =
     JObj [(''results_count'', JInt 4),
           (''results'', JList [example_formatted ''111'', example_formatted ''221'',
                                example_formatted ''222'', example_formatted ''331''])]"
proof -
  have h1: "example_http (request_params ''43.99A'' (type_entreprises False) None (Some ''75'') 1)
              = Inr (example_page 1)"
    by (simp add: example_http_def request_params_def)
  have h2: "dict_get (example_page 1) ''total_pages'' (JInt 1) = Inr (JInt 3)"
    by (simp add: example_page_def get_default_def)
  have h3: "\<forall>p\<in>set [1..max 1 3]. \<exists>payload.
        example_http (request_params ''43.99A'' (type_entreprises False) None (Some ''75'') p)
          = Inr payload \<and>
        format_results payload = Inr (example_normalized p)"
    by (simp add: example_http_def request_params_def format_example_page)
  have u: "[1..(3::int)] = [1, 2, 3]"
    by (simp add: upto_rec1)
  show ?thesis
    using get_companies_listing_concatenates_pages [OF h1 h2 h3]
    by (simp add: u example_normalized_def)
qed

text \<open>
  C9. When the request for page 1 fails, \<^verbatim>\<open>get_companies\<close> gives its object with no
  results and an error text, and \<^verbatim>\<open>get_companies_listing\<close> returns the listing with
  \<^verbatim>\<open>results_count\<close> 0 and no results, without any error field: not the one-element error
  list, and the same value as for a registry that answers with no results.
\<close>

theorem failed_first_page_gives_empty_listing:
  assumes "http (request_params naf (type_entreprises allow) postal dept 1) = Inl e"
  shows "get_companies_listing http naf postal dept allow =
           JObj [(''results_count'', JInt 0), (''results'', JList [])] \<and>
         get_companies_listing http naf postal dept allow \<noteq>
           JList [JObj [(''error'', JStr (str_exc e))]] \<and>
         get_companies_listing http naf postal dept allow =
           get_companies_listing
             (\<lambda>q. Inr (JObj [(''results'', JList []), (''total_pages'', JInt 0)]))
             naf postal dept allow"
  using assms
  by (simp add: get_companies_listing_def get_companies_def listing_of_def
        get_default_def Let_def format_results_def)

theorem failed_first_page_example:
  "get_companies_listing failing_http ''43.99A'' None (Some ''75'') False =
     JObj [(''results_count'', JInt 0), (''results'', JList [])]"
proof -
  have h: "failing_http (request_params ''43.99A'' (type_entreprises False) None (Some ''75'') 1)
             = Inl (OtherError ''Read timed out.'')"
    by (simp add: failing_http_def)
  show ?thesis
    using h failed_first_page_gives_empty_listing
      [of failing_http "''43.99A''" False None "Some ''75''" "OtherError ''Read timed out.''"]
    by simp
qed

section \<open>Properties of the normalisation\<close>

lemma for_each_all2:
  "for_each f xs = Inr ys \<Longrightarrow> list_all2 (\<lambda>x y. f x = Inr y) xs ys"
  by (induction xs arbitrary: ys) (auto split: sum.splits)

lemma for_each_member:
  "for_each f xs = Inr ys \<Longrightarrow> y \<in> set ys \<Longrightarrow> \<exists>x\<in>set xs. f x = Inr y"
  by (induction xs arbitrary: ys) (auto split: sum.splits)

lemma format_company_fields:
  assumes "format_company raw = Inr r"
  shows "\<exists>c fs siege. raw = JObj c \<and> r = JObj fs \<and> map fst fs = company_fields \<and>
     get_default c ''siege'' (JObj []) = JObj siege \<and>
     (\<forall>k\<in>set [''siren'', ''nom_complet'', ''nom_raison_sociale'', ''activite_principale'',
               ''date_creation'', ''nature_juridique''].
        map_of fs k = Some (get_default c k JNull)) \<and>
     map_of fs ''dirigeants'' = Some (get_default c ''dirigeants'' (JList [])) \<and>
     (\<forall>k\<in>set [''adresse'', ''code_postal'', ''libelle_commune''].
        map_of fs k = Some (get_default siege k (JStr '''')))"
proof (cases raw)
  case (JObj c)
  show ?thesis
  proof (cases "get_default c ''siege'' (JObj [])")
    case (JObj siege)
    then show ?thesis
      using assms \<open>raw = JObj c\<close>
      by (auto simp: company_fields_def)
  qed (use assms \<open>raw = JObj c\<close> in auto)
qed (use assms in auto)

text \<open>
  C6, as the code has it. Whenever \<^verbatim>\<open>format_results\<close> returns, it returns one record per
  raw company object, in order, each with exactly the ten fixed fields in their fixed
  order. \<^verbatim>\<open>dirigeants\<close> is the empty list when the raw object lacks it; \<^verbatim>\<open>adresse\<close>,
  \<^verbatim>\<open>code_postal\<close> and \<^verbatim>\<open>libelle_commune\<close> are the empty string when the raw object
  lacks \<^verbatim>\<open>siege\<close> or its \<^verbatim>\<open>siege\<close> lacks the field; \<^verbatim>\<open>siren\<close>, \<^verbatim>\<open>nom_complet\<close>,
  \<^verbatim>\<open>nom_raison_sociale\<close>, \<^verbatim>\<open>activite_principale\<close>, \<^verbatim>\<open>date_creation\<close> and
  \<^verbatim>\<open>nature_juridique\<close> are \<^verbatim>\<open>None\<close> when the raw object lacks them.
\<close>

theorem format_results_defaults:
  assumes "format_results payload = Inr formatted"
  shows "\<exists>results raws.
     dict_get payload ''results'' (JList []) = Inr results \<and> py_iter results = Inr raws \<and>
     list_all2
       (\<lambda>raw r. \<exists>c fs siege. raw = JObj c \<and> r = JObj fs \<and> map fst fs = company_fields \<and>
          get_default c ''siege'' (JObj []) = JObj siege \<and>
          (\<forall>k\<in>set [''siren'', ''nom_complet'', ''nom_raison_sociale'',
                    ''activite_principale'', ''date_creation'', ''nature_juridique''].
             map_of fs k = Some (get_default c k JNull)) \<and>
          map_of fs ''dirigeants'' = Some (get_default c ''dirigeants'' (JList [])) \<and>
          (\<forall>k\<in>set [''adresse'', ''code_postal'', ''libelle_commune''].
             map_of fs k = Some (get_default siege k (JStr ''''))))
       raws formatted"
proof -
  from assms obtain results raws where
    r: "dict_get payload ''results'' (JList []) = Inr results" "py_iter results = Inr raws"
    and f: "for_each format_company raws = Inr formatted"
    by (auto simp: format_results_def split: sum.splits)
  have "list_all2 (\<lambda>raw r. format_company raw = Inr r) raws formatted"
    using f by (rule for_each_all2)
  then have "list_all2
       (\<lambda>raw r. \<exists>c fs siege. raw = JObj c \<and> r = JObj fs \<and> map fst fs = company_fields \<and>
          get_default c ''siege'' (JObj []) = JObj siege \<and>
          (\<forall>k\<in>set [''siren'', ''nom_complet'', ''nom_raison_sociale'',
                    ''activite_principale'', ''date_creation'', ''nature_juridique''].
             map_of fs k = Some (get_default c k JNull)) \<and>
          map_of fs ''dirigeants'' = Some (get_default c ''dirigeants'' (JList [])) \<and>
          (\<forall>k\<in>set [''adresse'', ''code_postal'', ''libelle_commune''].
             map_of fs k = Some (get_default siege k (JStr ''''))))
       raws formatted"
    by (rule list_all2_mono) (rule format_company_fields)
  with r show ?thesis by blast
qed

lemma format_partial_page: "format_results partial_page = Inr [partial_formatted]"
  by (simp add: format_results_def partial_page_def partial_formatted_def get_default_def)

theorem format_results_defaults_example:
  "dict_get partial_formatted ''dirigeants'' JNull = Inr (JList []) \<and>
   dict_get partial_formatted ''code_postal'' JNull = Inr (JStr '''') \<and>
   dict_get partial_formatted ''nom_complet'' (JStr ''absent'') = Inr JNull"
  using format_results_defaults [OF format_partial_page]
  by (simp add: partial_formatted_def get_default_def)

text \<open>
  C6, as the claim states it, fails: a raw company object without a \<^verbatim>\<open>siren\<close> (here the
  empty object) is normalised to a record whose \<^verbatim>\<open>siren\<close>, \<^verbatim>\<open>nom_complet\<close>,
  \<^verbatim>\<open>nom_raison_sociale\<close>, \<^verbatim>\<open>activite_principale\<close>, \<^verbatim>\<open>date_creation\<close> and
  \<^verbatim>\<open>nature_juridique\<close> are \<^verbatim>\<open>None\<close>.
\<close>

theorem format_results_missing_fields_are_None:
  "format_results empty_company_page =
     Inr [JObj [(''siren'', JNull), (''nom_complet'', JNull), (''nom_raison_sociale'', JNull),
                (''activite_principale'', JNull), (''dirigeants'', JList []),
                (''adresse'', JStr ''''), (''code_postal'', JStr ''''),
                (''libelle_commune'', JStr ''''), (''date_creation'', JNull),
                (''nature_juridique'', JNull)]]"
  by (simp add: format_results_def empty_company_page_def get_default_def)

section \<open>Properties of the CSV exporter\<close>

lemma csv_row_example:
  "csv_row csv_company csv_dirigeant =
     [''DUPONT'', ''JEAN'', ''1970-01'', ''Gerant'', ''False'', '''',
      ''123456789'', ''ACME'', ''43.99A'', ''1 RUE DE LA PAIX'', ''75002'', ''PARIS'',
      ''2001-02-03'', ''5499'']"
  by (simp add: csv_row_def writerow_def headers_def dirigeant_data_def company_data_def
        csv_company_def csv_dirigeant_def get_default_def)

text \<open>
  C4, at a director with a nationality. The header names the column
  \<^verbatim>\<open>dirigeant_nationalite\<close>, but \<^verbatim>\<open>dirigeant_data\<close> has no such key, so the writer fills
  the column with its empty \<^verbatim>\<open>restval\<close>: the sixth cell of the row is empty although the
  director's \<^verbatim>\<open>nationalite\<close> is \<^verbatim>\<open>Francaise\<close>. The other director columns and the company
  columns hold the fields of the director and of the company.
\<close>

theorem write_csv_drops_nationalite:
  "get_default csv_dirigeant ''nationalite'' JNull = JStr ''Francaise'' \<and>
   write_csv [JObj csv_company] =
     ([[''dirigeant_nom'', ''dirigeant_prenoms'', ''dirigeant_date_de_naissance'',
        ''dirigeant_qualite'', ''dirigeant_origine_turque'', ''dirigeant_nationalite'',
        ''siren'', ''nom_complet'', ''activite_principale'', ''adresse'', ''code_postal'',
        ''libelle_commune'', ''date_creation'', ''nature_juridique''],
       [''DUPONT'', ''JEAN'', ''1970-01'', ''Gerant'', ''False'', '''',
        ''123456789'', ''ACME'', ''43.99A'', ''1 RUE DE LA PAIX'', ''75002'', ''PARIS'',
        ''2001-02-03'', ''5499'']], None)"
proof -
  have "write_csv [JObj csv_company] = ([headers, csv_row csv_company csv_dirigeant], None)"
    by (simp add: write_csv_def csv_company_def get_default_def)
  then show ?thesis
    by (simp add: csv_row_example) (simp add: headers_def csv_dirigeant_def get_default_def)
qed

lemma nationalite_column_always_empty:
  "csv_row company dirigeant ! 5 = []"
  by (simp add: csv_row_def writerow_def headers_def dirigeant_data_def company_data_def
        get_default_def)

lemma data_rows_append:
  "data_rows (xs @ ys) =
     (case data_rows xs of
        (rows, Some e) \<Rightarrow> (rows, Some e)
      | (rows, None) \<Rightarrow> (case data_rows ys of (rows', raised) \<Rightarrow> (rows @ rows', raised)))"
  by (induction xs) (auto split: prod.splits option.splits)

lemma company_rows_no_dirigeants:
  "map_of company ''dirigeants'' = None \<Longrightarrow> company_rows (JObj company) = ([], None)"
  by (simp add: get_default_def)

lemma data_rows_no_dirigeants:
  "\<forall>c\<in>set entries. \<exists>kvs. c = JObj kvs \<and> map_of kvs ''dirigeants'' = None \<Longrightarrow>
   data_rows entries = ([], None)"
  by (induction entries) (auto simp: get_default_def)

text \<open>
  C10. An entry that is a dictionary without a \<^verbatim>\<open>dirigeants\<close> list, as an error
  descriptor is, adds no row and raises nothing: \<^verbatim>\<open>write_csv\<close> writes the same with the
  entry as without it, wherever it stands in the list, and a list of such entries only
  gives the header row alone.
\<close>

theorem write_csv_skips_error_descriptors:
  "(map_of entry ''dirigeants'' = None \<longrightarrow>
      write_csv (before @ JObj entry # after) = write_csv (before @ after)) \<and>
   ((\<forall>c\<in>set entries. \<exists>kvs. c = JObj kvs \<and> map_of kvs ''dirigeants'' = None) \<longrightarrow>
      write_csv entries = ([headers], None))"
proof (intro conjI impI)
  assume "map_of entry ''dirigeants'' = None"
  then have "data_rows (JObj entry # after) = data_rows after"
    by (simp add: get_default_def split: prod.splits)
  then have "data_rows (before @ JObj entry # after) = data_rows (before @ after)"
    by (simp only: data_rows_append [of before])
  then show "write_csv (before @ JObj entry # after) = write_csv (before @ after)"
    by (simp add: write_csv_def)
next
  assume "\<forall>c\<in>set entries. \<exists>kvs. c = JObj kvs \<and> map_of kvs ''dirigeants'' = None"
  then show "write_csv entries = ([headers], None)"
    by (simp add: write_csv_def data_rows_no_dirigeants)
qed

theorem write_csv_skips_error_descriptors_example:
  "write_csv [JObj csv_company, JObj error_descriptor] = write_csv [JObj csv_company] \<and>
   write_csv [JObj error_descriptor, JObj error_descriptor] = ([headers], None)"
proof -
  have h1: "map_of error_descriptor ''dirigeants'' = None"
    by (simp add: error_descriptor_def)
  have h2: "\<forall>c\<in>set [JObj error_descriptor, JObj error_descriptor].
              \<exists>kvs. c = JObj kvs \<and> map_of kvs ''dirigeants'' = None"
    by (simp add: error_descriptor_def)
  show ?thesis
    using h1 h2
      write_csv_skips_error_descriptors
        [of error_descriptor "[JObj csv_company]" "[]"
            "[JObj error_descriptor, JObj error_descriptor]"]
    by simp
qed

section \<open>Properties of the enrichment pipeline\<close>

lemma map_of_dict_set: "map_of (dict_set k v kvs) = (map_of kvs)(k \<mapsto> v)"
  by (induction kvs) (auto simp: fun_eq_iff)

lemma get_default_dict_set:
  "get_default (dict_set k v kvs) k' dflt = (if k' = k then v else get_default kvs k' dflt)"
  by (simp add: get_default_def map_of_dict_set)

lemma keys_dict_set: "set (map fst (dict_set k v kvs)) = insert k (set (map fst kvs))"
  by (induction kvs) auto

lemma keeps_is_kept: "keeps d = Inr b \<Longrightarrow> b = is_kept d"
  by (cases d) (auto simp: keeps_def split: if_splits)

lemma filter_exc_filter: "filter_exc p xs = Inr ys \<Longrightarrow> ys = filter (\<lambda>x. p x = Inr True) xs"
  by (induction xs arbitrary: ys) (auto split: sum.splits if_splits)

lemma filter_exc_keeps: "filter_exc keeps xs = Inr ys \<Longrightarrow> ys = filter is_kept xs"
proof (induction xs arbitrary: ys)
  case Nil
  then show ?case by simp
next
  case (Cons x xs)
  then show ?case
    by (auto split: sum.splits if_splits dest: keeps_is_kept)
qed

lemma assign_id_result:
  "assign_id d = Inr (d', entry) \<Longrightarrow>
   \<exists>kv. d = JObj kv \<and> d' = JObj (dict_set ''id'' (JStr (dirigeant_id kv)) kv) \<and>
        entry = JObj [(''id'', JStr (dirigeant_id kv)),
                      (''nom'', get_default kv ''nom'' (JStr '''')),
                      (''prenoms'', get_default kv ''prenoms'' (JStr ''''))]"
  by (cases d) (auto simp: Let_def get_default_dict_set)

lemma assign_id_is_kept: "assign_id d = Inr (d', entry) \<Longrightarrow> is_kept d' = is_kept d"
  by (auto dest!: assign_id_result simp: get_default_dict_set)

lemma for_each_assign_id_kept:
  "for_each assign_id ds = Inr pairs \<Longrightarrow> \<forall>d\<in>set ds. is_kept d \<Longrightarrow>
   \<forall>d'\<in>set (map fst pairs). is_kept d'"
proof (induction ds arbitrary: pairs)
  case Nil
  then show ?case by simp
next
  case (Cons d ds)
  then show ?case
    by (auto split: sum.splits simp: assign_id_is_kept)
qed

lemma py_contains_dict_set:
  "k \<in> set (map fst kvs) \<or> k \<noteq> k' \<Longrightarrow>
   py_contains (JObj (dict_set k v kvs)) k' = py_contains (JObj kvs) k'"
  by (auto simp: keys_dict_set simp del: set_map)

text \<open>What \<^verbatim>\<open>clean_company\<close> returns for a company without an \<^verbatim>\<open>error\<close> key.\<close>

lemma clean_company_result:
  assumes "clean_company company = Inr (company', entries)"
  shows "(py_contains company ''error'' = Inr True \<and> company' = company \<and> entries = []) \<or>
         (py_contains company ''error'' = Inr False \<and>
          (\<exists>kvs ds pairs. company = JObj kvs \<and>
             py_iter (get_default kvs ''dirigeants'' (JList [])) = Inr ds \<and>
             for_each assign_id (filter is_kept ds) = Inr pairs \<and>
             company' = JObj (dict_set ''dirigeants'' (JList (map fst pairs)) kvs) \<and>
             entries = map snd pairs))"
proof (cases "py_contains company ''error''")
  case (Inl e)
  with assms show ?thesis by (simp add: clean_company_def)
next
  case (Inr has_error)
  show ?thesis
  proof (cases has_error)
    case True
    with Inr assms show ?thesis by (simp add: clean_company_def)
  next
    case False
    with Inr assms obtain kvs where c: "company = JObj kvs"
      by (cases company) (auto simp: clean_company_def)
    from assms Inr False c obtain ds kept pairs where
      "py_iter (get_default kvs ''dirigeants'' (JList [])) = Inr ds"
      "filter_exc keeps ds = Inr kept"
      "for_each assign_id kept = Inr pairs"
      "company' = JObj (dict_set ''dirigeants'' (JList (map fst pairs)) kvs)"
      "entries = map snd pairs"
      by (auto simp: clean_company_def split: sum.splits)
    with Inr False c show ?thesis
      by (auto dest: filter_exc_keeps)
  qed
qed

lemma clean_company_kept:
  assumes "clean_company company = Inr (company', entries)"
    and "py_contains company' ''error'' = Inr False"
  shows "\<exists>kvs ds. company' = JObj kvs \<and> map_of kvs ''dirigeants'' = Some (JList ds) \<and>
                  (\<forall>d\<in>set ds. is_kept d)"
proof -
  from clean_company_result [OF assms(1)] assms(2)
  obtain kvs ds pairs where
    "for_each assign_id (filter is_kept ds) = Inr pairs"
    "company' = JObj (dict_set ''dirigeants'' (JList (map fst pairs)) kvs)"
    by auto
  moreover from this have "\<forall>d'\<in>set (map fst pairs). is_kept d'"
    by (auto dest!: for_each_assign_id_kept simp del: set_map)
  ultimately show ?thesis
    by (auto simp: map_of_dict_set simp del: set_map)
qed

lemma cleanup_pass_kept:
  "cleanup_pass companies = Inr (cleaned, flat) \<Longrightarrow> c \<in> set cleaned \<Longrightarrow>
   py_contains c ''error'' = Inr False \<Longrightarrow>
   \<exists>kvs ds. c = JObj kvs \<and> map_of kvs ''dirigeants'' = Some (JList ds) \<and>
            (\<forall>d\<in>set ds. is_kept d)"
proof (induction companies arbitrary: cleaned flat)
  case Nil
  then show ?case by simp
next
  case (Cons company companies)
  from Cons.prems(1) obtain company' entries cleaned' flat' where
    cc: "clean_company company = Inr (company', entries)"
    and cp: "cleanup_pass companies = Inr (cleaned', flat')"
    and cl: "cleaned = company' # cleaned'"
    by (auto split: sum.splits prod.splits)
  from Cons.prems(2) cl consider "c = company'" | "c \<in> set cleaned'" by auto
  then show ?case
  proof cases
    case 1
    with cc Cons.prems(3) show ?thesis by (auto dest: clean_company_kept)
  next
    case 2
    show ?thesis by (rule Cons.IH [OF cp 2 Cons.prems(3)])
  qed
qed

lemma py_setitem_result:
  "py_setitem d k v = Inr d' \<Longrightarrow> \<exists>kv. d = JObj kv \<and> d' = JObj (dict_set k v kv)"
  by (cases d) auto

lemma set_origin_result:
  "set_origin turkish_origins d = Inr d' \<Longrightarrow>
   \<exists>kv b. d = JObj kv \<and> d' = JObj (dict_set ''origine_turque'' (JBool b) kv)"
  by (cases d) (auto simp: set_origin_def split: sum.splits option.splits)

lemma set_origin_is_kept: "set_origin turkish_origins d = Inr d' \<Longrightarrow> is_kept d' = is_kept d"
  by (auto dest!: set_origin_result simp: get_default_dict_set)

lemma merge_dirigeants_kept:
  "merge_dirigeants turkish_origins ds = (ds', raised) \<Longrightarrow> \<forall>d\<in>set ds. is_kept d \<Longrightarrow>
   \<forall>d\<in>set ds'. is_kept d"
proof (induction ds arbitrary: ds' raised)
  case Nil
  then show ?case by simp
next
  case (Cons d ds)
  then show ?case
    by (auto split: sum.splits prod.splits simp: set_origin_is_kept)
qed

lemma merge_company_contains:
  "merge_company turkish_origins c = (c', raised) \<Longrightarrow> py_contains c' k = py_contains c k"
proof (cases c)
  case (JObj kvs)
  assume m: "merge_company turkish_origins c = (c', raised)"
  show ?thesis
  proof (cases "map_of kvs ''dirigeants''")
    case None
    with m JObj show ?thesis by auto
  next
    case (Some v)
    then have "''dirigeants'' \<in> set (map fst kvs)"
      using map_of_SomeD [OF Some] by (force simp: image_iff)
    with m JObj Some show ?thesis
      by (cases v) (auto split: prod.splits sum.splits simp: keys_dict_set simp del: set_map)
  qed
qed auto

lemma kept_company_iff:
  "kept_company c \<longleftrightarrow>
     (\<exists>kvs ds. c = JObj kvs \<and> map_of kvs ''dirigeants'' = Some (JList ds) \<and>
               (\<forall>d\<in>set ds. is_kept d))"
  by (cases c) (auto simp: list_all_iff split: option.splits json.splits)

lemma merge_dirigeants_list_all:
  "merge_dirigeants turkish_origins ds = (ds', raised) \<Longrightarrow> list_all is_kept ds \<Longrightarrow>
   list_all is_kept ds'"
  using merge_dirigeants_kept [of turkish_origins ds ds' raised]
  by (simp add: list_all_iff)

lemma merge_company_kept:
  assumes "merge_company turkish_origins c = (c', raised)" and "kept_company c"
  shows "kept_company c'"
proof -
  from assms(2) obtain kvs ds where
    c: "c = JObj kvs" "map_of kvs ''dirigeants'' = Some (JList ds)" "list_all is_kept ds"
    by (cases c) (auto split: option.splits json.splits)
  obtain ds' r where md: "merge_dirigeants turkish_origins ds = (ds', r)"
    by (cases "merge_dirigeants turkish_origins ds")
  from assms(1) have c': "c' = JObj (dict_set ''dirigeants'' (JList ds') kvs)"
    unfolding c(1) by (simp add: c(2) md)
  have "list_all is_kept ds'"
    using md c(3) by (rule merge_dirigeants_list_all)
  then show ?thesis
    unfolding c' by (simp add: map_of_dict_set)
qed

lemma merge_company_step:
  assumes "merge_company turkish_origins c = (c', raised)"
    and "py_contains c ''error'' = Inr False \<longrightarrow> kept_company c"
  shows "py_contains c' ''error'' = Inr False \<longrightarrow> kept_company c'"
  using assms merge_company_contains [OF assms(1), of "''error''"] merge_company_kept [OF assms(1)]
  by presburger

lemma merge_all_kept:
  "merge_all turkish_origins cs = (cs', raised) \<Longrightarrow>
   list_all (\<lambda>c. py_contains c ''error'' = Inr False \<longrightarrow> kept_company c) cs \<Longrightarrow>
   list_all (\<lambda>c. py_contains c ''error'' = Inr False \<longrightarrow> kept_company c) cs'"
proof (induction cs arbitrary: cs' raised)
  case Nil
  then show ?case by simp
next
  case (Cons c cs)
  obtain c1 r1 where m1: "merge_company turkish_origins c = (c1, r1)"
    by (cases "merge_company turkish_origins c")
  from Cons.prems(2) have hd: "py_contains c ''error'' = Inr False \<longrightarrow> kept_company c"
    and tl: "list_all (\<lambda>c. py_contains c ''error'' = Inr False \<longrightarrow> kept_company c) cs"
    by simp_all
  have c1: "py_contains c1 ''error'' = Inr False \<longrightarrow> kept_company c1"
    using m1 hd by (rule merge_company_step)
  show ?case
  proof (cases r1)
    case (Some e)
    from Cons.prems(1) have "cs' = c1 # cs"
      by (simp add: m1 Some)
    then show ?thesis using c1 tl by simp
  next
    case None
    obtain cs2 r2 where m2: "merge_all turkish_origins cs = (cs2, r2)"
      by (cases "merge_all turkish_origins cs")
    from Cons.prems(1) have "cs' = c1 # cs2"
      by (simp add: m1 None m2)
    moreover have "list_all (\<lambda>c. py_contains c ''error'' = Inr False \<longrightarrow> kept_company c) cs2"
      using m2 tl by (rule Cons.IH)
    ultimately show ?thesis using c1 by simp
  qed
qed

text \<open>
  What the filter guarantees. In every list that \<^verbatim>\<open>results_cleanup_and_enrich\<close> returns,
  whatever the flag and whatever the classifier does, every company without an \<^verbatim>\<open>error\<close>
  key holds a list of directors each of which has \<^verbatim>\<open>type_dirigeant\<close> equal to
  \<^verbatim>\<open>personne physique\<close> and a \<^verbatim>\<open>qualite\<close> outside \<^verbatim>\<open>FILTRE_QUALITE\<close> as the source
  file stores it.
\<close>

lemma enriched_dirigeants_are_filtered:
  assumes "results_cleanup_and_enrich classifier companies check = Inr (returned, logs)"
    and "c \<in> set returned"
    and "py_contains c ''error'' = Inr False"
  shows "\<exists>kvs ds. c = JObj kvs \<and> map_of kvs ''dirigeants'' = Some (JList ds) \<and>
           (\<forall>d\<in>set ds. \<exists>kv. d = JObj kv \<and>
              get_default kv ''type_dirigeant'' JNull = JStr ''personne physique'' \<and>
              get_default kv ''qualite'' JNull \<notin> set (map JStr FILTRE_QUALITE))"
proof -
  from assms(1) obtain cleaned flat where cp: "cleanup_pass companies = Inr (cleaned, flat)"
    by (auto simp: results_cleanup_and_enrich_def split: sum.splits)
  have cleaned:
    "list_all (\<lambda>c. py_contains c ''error'' = Inr False \<longrightarrow> kept_company c) cleaned"
    unfolding list_all_iff kept_company_iff
    using cleanup_pass_kept [OF cp] by blast
  have "returned = cleaned \<or>
        (\<exists>turkish_origins raised. merge_all turkish_origins cleaned = (returned, raised))"
    using assms(1) unfolding results_cleanup_and_enrich_def cp
    by (auto split: if_splits sum.splits prod.splits option.splits)
  then have "list_all (\<lambda>c. py_contains c ''error'' = Inr False \<longrightarrow> kept_company c) returned"
  proof
    assume "returned = cleaned"
    with cleaned show ?thesis by simp
  next
    assume "\<exists>turkish_origins raised. merge_all turkish_origins cleaned = (returned, raised)"
    then obtain turkish_origins raised where
      "merge_all turkish_origins cleaned = (returned, raised)"
      by blast
    then show ?thesis using cleaned by (rule merge_all_kept)
  qed
  with assms(2,3) have "kept_company c"
    by (simp add: list_all_iff)
  then obtain kvs ds where
    k: "c = JObj kvs" "map_of kvs ''dirigeants'' = Some (JList ds)" "\<forall>d\<in>set ds. is_kept d"
    unfolding kept_company_iff by blast
  have "\<exists>kv. d = JObj kv \<and>
              get_default kv ''type_dirigeant'' JNull = JStr ''personne physique'' \<and>
              get_default kv ''qualite'' JNull \<notin> set (map JStr FILTRE_QUALITE)"
    if "d \<in> set ds" for d
    using k(3) that by (cases d) auto
  with k(1,2) show ?thesis by blast
qed

lemma scenario_cleanup:
  "cleanup_pass [JObj scenario_company] = Inr ([JObj scenario_cleaned], [scenario_entry])"
  by (simp add: clean_company_def keeps_def FILTRE_QUALITE_def get_default_def Let_def
        scenario_company_def scenario_gerant_def scenario_liquidateur_def scenario_holding_def
        scenario_cleaned_def scenario_gerant_id_def scenario_entry_def)

lemma scenario_merge:
  "merge_all [\<lparr>ot_id = dirigeant_id scenario_gerant, origine_turque = True\<rparr>]
     [JObj scenario_cleaned] = ([JObj scenario_enriched], None)"
  by (simp add: set_origin_def scenario_cleaned_def scenario_enriched_def scenario_gerant_id_def
        scenario_gerant_def)

lemma scenario_enrich:
  "results_cleanup_and_enrich scenario_classifier [JObj scenario_company] True =
     Inr ([JObj scenario_enriched], [])"
  by (simp add: results_cleanup_and_enrich_def scenario_cleanup scenario_classifier_def
        scenario_merge scenario_entry_def del: cleanup_pass.simps merge_all.simps)

lemma enriched_dirigeants_are_filtered_example:
  "map_of scenario_enriched ''dirigeants'' =
     Some (JList [JObj (scenario_gerant_id @ [(''origine_turque'', JBool True)])]) \<and>
   get_default (scenario_gerant_id @ [(''origine_turque'', JBool True)]) ''qualite'' JNull
     = JStr ''Gerant''"
proof -
  have h2: "JObj scenario_enriched \<in> set [JObj scenario_enriched]"
    by simp
  have h3: "py_contains (JObj scenario_enriched) ''error'' = Inr False"
    by (simp add: scenario_enriched_def)
  show ?thesis
    using enriched_dirigeants_are_filtered [OF scenario_enrich h2 h3]
    by (simp add: scenario_enriched_def scenario_gerant_id_def scenario_gerant_def
          get_default_def)
qed

lemma assign_id_with_id:
  "assign_id d = Inr (d', entry) \<Longrightarrow> d' = with_id d \<and> entry = entry_of d'"
  by (cases d) (auto simp: Let_def)

lemma for_each_assign_id:
  "for_each assign_id ds = Inr pairs \<Longrightarrow>
   map fst pairs = map with_id ds \<and> map snd pairs = map entry_of (map with_id ds)"
proof (induction ds arbitrary: pairs)
  case Nil
  then show ?case by simp
next
  case (Cons d ds)
  from Cons.prems obtain p ps where
    p: "assign_id d = Inr p" and ps: "for_each assign_id ds = Inr ps" and pp: "pairs = p # ps"
    by (auto split: sum.splits)
  from p have "fst p = with_id d \<and> snd p = entry_of (with_id d)"
    using assign_id_with_id [of d "fst p" "snd p"] by simp
  with Cons.IH [OF ps] pp show ?case by simp
qed

text \<open>What \<^verbatim>\<open>clean_company\<close> returns, in terms of the input only.\<close>

lemma clean_company_shape:
  assumes "clean_company company = Inr (company', entries)"
  shows "(py_contains company ''error'' = Inr True \<and> company' = company \<and> entries = []) \<or>
         (py_contains company ''error'' = Inr False \<and>
          (\<exists>kvs. company = JObj kvs \<and>
             company' = JObj (dict_set ''dirigeants''
                               (JList (map with_id (filter is_kept (dirigeants_of company)))) kvs) \<and>
             entries = map entry_of (map with_id (filter is_kept (dirigeants_of company)))))"
proof -
  from clean_company_result [OF assms]
  consider "py_contains company ''error'' = Inr True \<and> company' = company \<and> entries = []"
    | kvs ds pairs where "py_contains company ''error'' = Inr False" "company = JObj kvs"
        "py_iter (get_default kvs ''dirigeants'' (JList [])) = Inr ds"
        "for_each assign_id (filter is_kept ds) = Inr pairs"
        "company' = JObj (dict_set ''dirigeants'' (JList (map fst pairs)) kvs)"
        "entries = map snd pairs"
    by blast
  then show ?thesis
  proof cases
    case 1
    then show ?thesis by simp
  next
    case 2
    have "dirigeants_of company = ds"
      using 2(2,3) by simp
    with 2 for_each_assign_id [OF 2(4)] show ?thesis
      by simp
  qed
qed

lemma dirigeants_of_dict_set:
  "dirigeants_of (JObj (dict_set ''dirigeants'' (JList ds) kvs)) = ds"
  by (simp add: get_default_dict_set)

lemma clean_company_entries:
  assumes "clean_company company = Inr (company', entries)"
  shows "entries =
           (if py_contains company' ''error'' = Inr False
            then map entry_of (dirigeants_of company') else [])"
proof -
  from clean_company_shape [OF assms]
  consider "py_contains company ''error'' = Inr True \<and> company' = company \<and> entries = []"
    | kvs where "py_contains company ''error'' = Inr False" "company = JObj kvs"
        "company' = JObj (dict_set ''dirigeants''
                               (JList (map with_id (filter is_kept (dirigeants_of company)))) kvs)"
        "entries = map entry_of (map with_id (filter is_kept (dirigeants_of company)))"
    by blast
  then show ?thesis
  proof cases
    case 1
    then show ?thesis by simp
  next
    case 2
    have "py_contains company' ''error'' = py_contains company ''error''"
      unfolding 2(2,3) by (rule py_contains_dict_set) simp
    then show ?thesis
      using 2(1) unfolding 2(3,4) by (simp add: dirigeants_of_dict_set del: dirigeants_of.simps)
  qed
qed

text \<open>
  C5, as the code has it. The flat list handed to the classifier holds one entry
  \<^verbatim>\<open>{id, nom, prenoms}\<close> for every director of every cleaned company without an
  \<^verbatim>\<open>error\<close> key, companies in input order and the directors of a company in their order,
  and nothing removes an entry: the list is as long as there are such directors, and two
  directors with the same \<^verbatim>\<open>nom\<close> and \<^verbatim>\<open>prenoms\<close> give two entries with the same
  identifier.
\<close>

theorem all_dirigeants_one_entry_per_director:
  assumes "cleanup_pass companies = Inr (cleaned, all_dirigeants)"
  shows "all_dirigeants =
           concat (map (\<lambda>c. if py_contains c ''error'' = Inr False
                             then map entry_of (dirigeants_of c) else []) cleaned)"
  using assms
proof (induction companies arbitrary: cleaned all_dirigeants)
  case Nil
  then show ?case by simp
next
  case (Cons company companies)
  from Cons.prems obtain company' entries cleaned' flat' where
    cc: "clean_company company = Inr (company', entries)"
    and cp: "cleanup_pass companies = Inr (cleaned', flat')"
    and cl: "cleaned = company' # cleaned'" and fl: "all_dirigeants = entries @ flat'"
    by (auto split: sum.splits prod.splits)
  show ?case
    unfolding cl fl using clean_company_entries [OF cc] Cons.IH [OF cp] by simp
qed

lemma scenario_cleanup_twice:
  "cleanup_pass [JObj scenario_company, JObj scenario_company] =
     Inr ([JObj scenario_cleaned, JObj scenario_cleaned], [scenario_entry, scenario_entry])"
  by (simp add: clean_company_def keeps_def FILTRE_QUALITE_def get_default_def Let_def
        scenario_company_def scenario_gerant_def scenario_liquidateur_def scenario_holding_def
        scenario_cleaned_def scenario_gerant_id_def scenario_entry_def)

theorem all_dirigeants_one_entry_per_director_example:
  "[scenario_entry, scenario_entry] =
     concat (map (\<lambda>c. if py_contains c ''error'' = Inr False
                       then map entry_of (dirigeants_of c) else [])
               [JObj scenario_cleaned, JObj scenario_cleaned])"
  using all_dirigeants_one_entry_per_director [OF scenario_cleanup_twice] .

text \<open>
  C5, as the claim states it, fails: when the same person directs two companies of the
  list, the flat list holds the person's identifier twice.
\<close>

theorem all_dirigeants_repeats_identifier:
  "cleanup_pass [JObj scenario_company, JObj scenario_company] =
     Inr ([JObj scenario_cleaned, JObj scenario_cleaned], [scenario_entry, scenario_entry]) \<and>
   \<not> distinct (map (\<lambda>entry. py_getitem entry ''id'') [scenario_entry, scenario_entry])"
  by (simp add: scenario_cleanup_twice del: cleanup_pass.simps)

text \<open>
  C7. When the flag is set, the first loop has returned with a flat list that is not empty
  and the call of the classifier raises, \<^verbatim>\<open>results_cleanup_and_enrich\<close> does not raise: it
  logs one error line with the text of the exception and returns the cleaned list as the
  first loop left it, which is the list it returns without the flag.
\<close>

theorem classifier_failure_returns_cleaned:
  assumes "cleanup_pass companies = Inr (cleaned, all_dirigeants)"
    and "all_dirigeants \<noteq> []"
    and "classifier all_dirigeants = Inl e"
  shows "results_cleanup_and_enrich classifier companies True =
           Inr (cleaned, [ERROR (''Error identifying Turkish names: '' @ str_exc e)]) \<and>
         results_cleanup_and_enrich classifier companies False = Inr (cleaned, [])"
  using assms by (simp add: results_cleanup_and_enrich_def)

theorem classifier_failure_returns_cleaned_example:
  "results_cleanup_and_enrich failing_classifier [JObj scenario_company] True =
     Inr ([JObj scenario_cleaned],
          [ERROR ''Error identifying Turkish names: Connection error.''])"
proof -
  have h2: "[scenario_entry] \<noteq> []"
    by simp
  have h3: "failing_classifier [scenario_entry] = Inl (OtherError ''Connection error.'')"
    by (simp add: failing_classifier_def)
  show ?thesis
    using classifier_failure_returns_cleaned
      [of "[JObj scenario_company]" "[JObj scenario_cleaned]" "[scenario_entry]"
          failing_classifier "OtherError ''Connection error.''", OF scenario_cleanup h2 h3]
    by simp
qed

lemma py_getitem_with_id: "k \<noteq> ''id'' \<Longrightarrow> py_getitem (with_id d) k = py_getitem d k"
  by (cases d) (simp_all add: map_of_dict_set)

lemma cleanup_pass_flags:
  "cleanup_pass companies = Inr (cleaned, all_dirigeants) \<Longrightarrow>
   list_all2
     (\<lambda>c c'. c' = c \<or>
        list_all2
          (\<lambda>d d'. d' = with_id d \<and>
                   py_getitem d' ''origine_turque'' = py_getitem d ''origine_turque'')
          (filter is_kept (dirigeants_of c)) (dirigeants_of c'))
     companies cleaned"
proof (induction companies arbitrary: cleaned all_dirigeants)
  case Nil
  then show ?case by simp
next
  case (Cons company companies)
  from Cons.prems obtain company' entries cleaned' flat' where
    cc: "clean_company company = Inr (company', entries)"
    and cp: "cleanup_pass companies = Inr (cleaned', flat')"
    and cl: "cleaned = company' # cleaned'"
    by (auto split: sum.splits prod.splits)
  have "company' = company \<or>
        dirigeants_of company' = map with_id (filter is_kept (dirigeants_of company))"
    using clean_company_shape [OF cc] by (auto simp: dirigeants_of_dict_set simp del: dirigeants_of.simps)
  then have "company' = company \<or>
        list_all2
          (\<lambda>d d'. d' = with_id d \<and>
                   py_getitem d' ''origine_turque'' = py_getitem d ''origine_turque'')
          (filter is_kept (dirigeants_of company)) (dirigeants_of company')"
    by (auto simp: list_all2_map2 list_all2_same py_getitem_with_id simp del: dirigeants_of.simps)
  with Cons.IH [OF cp] show ?case
    unfolding cl by simp
qed

text \<open>
  C8. When the flag is not set, or the flat list is empty, \<^verbatim>\<open>results_cleanup_and_enrich\<close>
  returns the cleaned list of the first loop, whatever the classifier would answer (with
  the flag set it logs one information line). Every returned entry is either the input
  entry itself or a company whose directors are the kept directors of the input company
  with their identifier set, and for each of them \<^verbatim>\<open>origine_turque\<close> is absent if it was
  absent in the input and holds the same value if it was present.
\<close>

theorem skipped_classification_keeps_origin_flags:
  assumes "cleanup_pass companies = Inr (cleaned, all_dirigeants)"
    and "\<not> check_turkish_names \<or> all_dirigeants = []"
  shows "results_cleanup_and_enrich classifier companies check_turkish_names =
           Inr (cleaned,
                if check_turkish_names
                then [INFO ''No dirigeants found to check for Turkish names.''] else []) \<and>
         list_all2
           (\<lambda>c c'. c' = c \<or>
              list_all2
                (\<lambda>d d'. d' = with_id d \<and>
                         py_getitem d' ''origine_turque'' = py_getitem d ''origine_turque'')
                (filter is_kept (dirigeants_of c)) (dirigeants_of c'))
           companies cleaned"
proof
  show "results_cleanup_and_enrich classifier companies check_turkish_names =
           Inr (cleaned,
                if check_turkish_names
                then [INFO ''No dirigeants found to check for Turkish names.''] else [])"
    using assms by (auto simp: results_cleanup_and_enrich_def)
  show "list_all2
           (\<lambda>c c'. c' = c \<or>
              list_all2
                (\<lambda>d d'. d' = with_id d \<and>
                         py_getitem d' ''origine_turque'' = py_getitem d ''origine_turque'')
                (filter is_kept (dirigeants_of c)) (dirigeants_of c'))
           companies cleaned"
    using assms(1) by (rule cleanup_pass_flags)
qed

theorem skipped_classification_keeps_origin_flags_example:
  "results_cleanup_and_enrich scenario_classifier [JObj scenario_company] False =
     Inr ([JObj scenario_cleaned], []) \<and>
   py_getitem (JObj scenario_gerant_id) ''origine_turque'' = Inl (KeyError (quoted ''origine_turque''))"
proof -
  have h2: "\<not> False \<or> [scenario_entry] = []"
    by simp
  show ?thesis
    using skipped_classification_keeps_origin_flags
      [OF scenario_cleanup h2, of scenario_classifier]
    by (simp add: scenario_gerant_id_def scenario_gerant_def)
qed

section \<open>The identifier on known inputs\<close>

text \<open>
  The digests of \<^verbatim>\<open>a\<close> and \<^verbatim>\<open>abc\<close> are those of the test suite of RFC 1321; the third
  is the digest \<^verbatim>\<open>hashlib\<close> gives for \<^verbatim>\<open>DUPONTJEAN\<close>.
\<close>

lemma fold_upt_step:
  "fold f [i..<j] s = (if i < j then fold f [i + 1..<j] (f i s) else s)"
  by (simp add: upt_rec [of i j])

lemma md5_blocks_a:
  "blocks (le_words (md5_padding (map of_char ''a''))) =
     [[32865, 0, 0, 0, 0, 0, 0, 0, 0, 0, 0, 0, 0, 0, 8, 0]]"
  by code_simp

lemma md5_block_a:
  "md5_block (0x67452301, 0xefcdab89, 0x98badcfe, 0x10325476)
     [32865, 0, 0, 0, 0, 0, 0, 0, 0, 0, 0, 0, 0, 0, 8, 0] =
     (0xb975c10c, 0xa8b6f1c0, 0xe299c331, 0x61267769)"
  unfolding md5_block_def
  by (simp add: fold_upt_step md5_round_def md5_s_def md5_K_def rotl32_def)

lemma md5_hexdigest_a: "md5_hexdigest ''a'' = ''0cc175b9c0f1b6a831c399e269772661''"
  unfolding md5_hexdigest_def md5_blocks_a
  by (simp add: md5_block_a word_bytes_def hex_byte_def digit_char_def)

lemma md5_blocks_abc:
  "blocks (le_words (md5_padding (map of_char ''abc''))) =
     [[2153996897, 0, 0, 0, 0, 0, 0, 0, 0, 0, 0, 0, 0, 0, 24, 0]]"
  by code_simp

lemma md5_block_abc:
  "md5_block (0x67452301, 0xefcdab89, 0x98badcfe, 0x10325476)
     [2153996897, 0, 0, 0, 0, 0, 0, 0, 0, 0, 0, 0, 0, 0, 24, 0] =
     (0x98500190, 0xb04fd23c, 0x7d3f96d6, 0x727fe128)"
  unfolding md5_block_def
  by (simp add: fold_upt_step md5_round_def md5_s_def md5_K_def rotl32_def)

lemma md5_hexdigest_abc: "md5_hexdigest ''abc'' = ''900150983cd24fb0d6963f7d28e17f72''"
  unfolding md5_hexdigest_def md5_blocks_abc
  by (simp add: md5_block_abc word_bytes_def hex_byte_def digit_char_def)

lemma md5_blocks_dupont:
  "blocks (le_words (md5_padding (map of_char ''DUPONTJEAN''))) =
     [[1330664772, 1162499150, 8408641, 0, 0, 0, 0, 0, 0, 0, 0, 0, 0, 0, 80, 0]]"
  by code_simp

lemma md5_block_dupont:
  "md5_block (0x67452301, 0xefcdab89, 0x98badcfe, 0x10325476)
     [1330664772, 1162499150, 8408641, 0, 0, 0, 0, 0, 0, 0, 0, 0, 0, 0, 80, 0] =
     (0x9edf3099, 0xd4d59cb7, 0xf7d324f2, 0xf2c656ff)"
  unfolding md5_block_def
  by (simp add: fold_upt_step md5_round_def md5_s_def md5_K_def rotl32_def)

lemma md5_hexdigest_dupont: "md5_hexdigest ''DUPONTJEAN'' = ''9930df9eb79cd5d4f224d3f7ff56c6f2''"
  unfolding md5_hexdigest_def md5_blocks_dupont
  by (simp add: md5_block_dupont word_bytes_def hex_byte_def digit_char_def)


lemma dirigeant_id_scenario_gerant: "dirigeant_id scenario_gerant = ''9930df9e''"
proof -
  have "unique_str scenario_gerant = ''DUPONTJEAN''"
    by (simp add: unique_str_def scenario_gerant_def get_default_def)
  then show ?thesis
    by (simp add: dirigeant_id_def md5_hexdigest_dupont)
qed

section \<open>The exporter on enriched lists\<close>









section \<open>The filter on the role as the registry spells it\<close>

lemma dirigeant_id_auditor: "dirigeant_id auditor = ''9930df9e''"
proof -
  have "unique_str auditor = ''DUPONTJEAN''"
    by (simp add: unique_str_def auditor_def get_default_def)
  then show ?thesis
    by (simp add: dirigeant_id_def md5_hexdigest_dupont)
qed

text \<open>
  C1, at a person whose \<^verbatim>\<open>qualite\<close> is the role of alternate auditor spelled with the two
  bytes C3 A9 for its accented letter. The third string of \<^verbatim>\<open>FILTRE_QUALITE\<close> holds the
  four bytes C3 83 C2 A9 in that place, so the comparison fails and the director stays in
  the returned list, with its identifier set.
\<close>

theorem alternate_auditor_is_not_filtered:
  "get_default auditor ''type_dirigeant'' JNull = JStr ''personne physique'' \<and>
   get_default auditor ''qualite'' JNull =
     JStr (''Commissaire aux comptes suppl'' @ [CHR 0xC3, CHR 0xA9] @ ''ant'') \<and>
   results_cleanup_and_enrich scenario_classifier [JObj auditor_company] False =
     Inr ([JObj [(''siren'', JStr ''123456789''),
                 (''dirigeants'', JList [JObj (auditor @ [(''id'', JStr ''9930df9e'')])])]],
          [])"
proof -
  have c: "cleanup_pass [JObj auditor_company] =
     Inr ([JObj [(''siren'', JStr ''123456789''),
                 (''dirigeants'', JList [JObj (auditor @ [(''id'', JStr (dirigeant_id auditor))])])]],
          [JObj [(''id'', JStr (dirigeant_id auditor)), (''nom'', JStr ''DUPONT''),
                 (''prenoms'', JStr ''JEAN'')]])"
    by (simp add: clean_company_def keeps_def FILTRE_QUALITE_def get_default_def Let_def
          auditor_company_def auditor_def)
  have e: "results_cleanup_and_enrich scenario_classifier [JObj auditor_company] False =
     Inr ([JObj [(''siren'', JStr ''123456789''),
                 (''dirigeants'', JList [JObj (auditor @ [(''id'', JStr ''9930df9e'')])])]],
          [])"
    by (simp add: results_cleanup_and_enrich_def c dirigeant_id_auditor
          del: cleanup_pass.simps)
  have a: "get_default auditor ''type_dirigeant'' JNull = JStr ''personne physique''"
    by (simp add: auditor_def get_default_def)
  have q: "get_default auditor ''qualite'' JNull =
     JStr (''Commissaire aux comptes suppl'' @ [CHR 0xC3, CHR 0xA9] @ ''ant'')"
    by (simp add: auditor_def get_default_def)
  from a q e show ?thesis by (intro conjI)
qed

end
